theory Spec2Isabelle
  imports
    Main
    "HOL-Library.Multiset"
    "HOL-Library.Sublist"
    "HOL-Library.Char_ord"
    "HOL-Library.List_Lexorder"
    "HOL-Library.Product_Lexorder"
begin

section \<open>Global Tariff Tracker dashboard (tarrif-tracker-dashboard.py)\<close>

text \<open>
  The dashboard is one Streamlit script: three scrapers (USITC table, WTO spreadsheet,
  USTR link list), an SMTP notifier, a Firestore collection \<^verbatim>\<open>watchlist\<close> and the
  module-level code that calls them on every render. The script is embedded as functions in
  a state-and-exception monad: the state is the \<^emph>\<open>world\<close> the script acts on (the ordered
  trace of its outward effects and the contents of the collection), an exception raised in
  Python is the value \<open>Inl e\<close>, and what the outside world answers (HTTP responses, the
  spreadsheet, secrets, the mail relay, the Firestore server, the button) is read from an
  environment record.
\<close>

subsection \<open>Python exceptions and the monad\<close>

text \<open>
  Every handler of the script is \<^verbatim>\<open>except Exception as e\<close> and uses only \<^verbatim>\<open>str(e)\<close>, so an
  exception is modelled by its message.
\<close>

datatype exn = Exception (str: string)

record request =
  url :: string
  timeout :: "nat option"

text \<open>
  A parsed element: \<open>attrs\<close> is the attribute dictionary (\<^verbatim>\<open>tag.get(k)\<close> is \<open>attrs tag k\<close>,
  \<open>None\<close> when the attribute is absent), \<open>get_text\<close> is what
  \<^verbatim>\<open>tag.get_text(strip=True)\<close> returns. A table row is given by the list of \<^verbatim>\<open>td\<close>
  elements that \<^verbatim>\<open>row.find_all("td")\<close> returns.
\<close>

record tag =
  attrs :: "string \<rightharpoonup> string"
  get_text :: string

type_synonym row = "tag list"

text \<open>
  The document \<^verbatim>\<open>BeautifulSoup(response.text, "html.parser")\<close>, given by the answers to the
  two selectors the script uses: \<^verbatim>\<open>select("#search-results tbody tr")\<close> and
  \<^verbatim>\<open>select(".view-content a")\<close>, both in document order.
\<close>

record soup =
  search_results_rows :: "row list"
  view_content_links :: "tag list"

record response =
  status_code :: nat
  reason :: string
  response_url :: string
  html :: soup

datatype dataframe = DataFrame (columns: "string list") (rows: "string list list")

text \<open>The dictionary passed to \<^verbatim>\<open>watchlist_ref.add\<close> and the stored document.\<close>

datatype timestamp_arg = SERVER_TIMESTAMP | ClientTimestamp nat

record payload =
  p_query :: string
  p_country :: string
  p_tariff_type :: string
  p_timestamp :: timestamp_arg

record doc =
  doc_id :: string
  query :: string
  country :: string
  tariff_type :: string
  timestamp :: nat

record message =
  msg_from :: string
  msg_to :: string
  msg_subject :: string
  msg_body :: string

text \<open>The outward effects of the script, in the order they happen.\<close>

datatype event =
    HttpGet request
  | ReadExcel string nat nat
  | SmtpConnect string nat "nat option"
  | SmtpStartTLS
  | SmtpLogin string string
  | SmtpSendMessage message
  | SmtpQuit
  | FirestoreAdd payload
  | FirestoreStream
  | StSubheader string
  | StError string
  | StInfo string
  | StSuccess string
  | StDataframe dataframe
  | StTable dataframe
  | StMarkdown string
  | StButton string

record world =
  trace :: "event list"
  watchlist :: "doc list"

text \<open>
  What the outside answers. \<open>http\<close> is the outcome of \<^verbatim>\<open>requests.get\<close> for a request (an
  exception or a response), \<open>excel\<close> the outcome of \<^verbatim>\<open>pd.read_excel\<close>, \<open>secrets k\<close> the
  outcome of \<^verbatim>\<open>st.secrets[k]\<close> (the value, or the exception for a missing key), the \<open>smtp_*\<close> fields say whether the corresponding step of the SMTP
  session raises (\<open>smtp_quit\<close>: whether leaving the \<^verbatim>\<open>with\<close> block does),
  \<open>firestore_add\<close> is the outcome of the write at the server (an exception, or the
  document id generated for the write and the server's time), \<open>firestore_stream\<close>
  says whether the query raises, and \<open>button\<close> is what \<^verbatim>\<open>st.button\<close> returns.
\<close>

record env =
  http :: "request \<Rightarrow> exn + response"
  excel :: "exn + dataframe"
  secrets :: "string \<Rightarrow> exn + string"
  smtp_connect :: "exn option"
  smtp_starttls :: "exn option"
  smtp_login :: "exn option"
  smtp_send_message :: "exn option"
  smtp_quit :: "exn option"
  firestore_add :: "exn + string \<times> nat"
  firestore_stream :: "exn option"
  button :: bool

type_synonym 'a py = "world \<Rightarrow> (exn + 'a) \<times> world"

definition py_return :: "'a \<Rightarrow> 'a py" where
  "py_return v = (\<lambda>w. (Inr v, w))"

definition py_raise :: "exn \<Rightarrow> 'a py" where
  "py_raise e = (\<lambda>w. (Inl e, w))"

definition py_bind :: "'a py \<Rightarrow> ('a \<Rightarrow> 'b py) \<Rightarrow> 'b py" where
  "py_bind m f = (\<lambda>w. case m w of (Inl e, w') \<Rightarrow> (Inl e, w') | (Inr v, w') \<Rightarrow> f v w')"

text \<open>\<^verbatim>\<open>try: body except Exception as e: handler\<close>\<close>

definition try_except :: "'a py \<Rightarrow> (exn \<Rightarrow> 'a py) \<Rightarrow> 'a py" where
  "try_except body handler =
     (\<lambda>w. case body w of (Inl e, w') \<Rightarrow> handler e w' | (Inr v, w') \<Rightarrow> (Inr v, w'))"

definition emit :: "event \<Rightarrow> unit py" where
  "emit ev = (\<lambda>w. (Inr (), w\<lparr>trace := trace w @ [ev]\<rparr>))"

definition outcome :: "exn + 'a \<Rightarrow> 'a py" where
  "outcome r = (case r of Inl e \<Rightarrow> py_raise e | Inr v \<Rightarrow> py_return v)"

definition may_raise :: "exn option \<Rightarrow> unit py" where
  "may_raise r = (case r of Some e \<Rightarrow> py_raise e | None \<Rightarrow> py_return ())"

fun for_each :: "'a list \<Rightarrow> ('a \<Rightarrow> unit py) \<Rightarrow> unit py" where
  "for_each [] f = py_return ()"
| "for_each (x # xs) f = py_bind (f x) (\<lambda>_. for_each xs f)"


subsection \<open>Library calls\<close>

definition st_subheader :: "string \<Rightarrow> unit py" where
  "st_subheader s = emit (StSubheader s)"

definition st_error :: "string \<Rightarrow> unit py" where
  "st_error s = emit (StError s)"

definition st_info :: "string \<Rightarrow> unit py" where
  "st_info s = emit (StInfo s)"

definition st_success :: "string \<Rightarrow> unit py" where
  "st_success s = emit (StSuccess s)"

definition st_dataframe :: "dataframe \<Rightarrow> unit py" where
  "st_dataframe df = emit (StDataframe df)"

definition st_table :: "dataframe \<Rightarrow> unit py" where
  "st_table df = emit (StTable df)"

definition st_markdown :: "string \<Rightarrow> unit py" where
  "st_markdown s = emit (StMarkdown s)"

definition st_button :: "env \<Rightarrow> string \<Rightarrow> bool py" where
  "st_button env label = py_bind (emit (StButton label)) (\<lambda>_. py_return (button env))"

definition st_secrets :: "env \<Rightarrow> string \<Rightarrow> string py" where
  "st_secrets env k = outcome (secrets env k)"

definition requests_get :: "env \<Rightarrow> request \<Rightarrow> response py" where
  "requests_get env req = py_bind (emit (HttpGet req)) (\<lambda>_. outcome (http env req))"

definition str_digit :: "nat \<Rightarrow> char" where
  "str_digit d = ''0123456789'' ! d"

fun str_nat :: "nat \<Rightarrow> string" where
  "str_nat n =
     (if n < 10 then [str_digit n]
      else str_nat (n div 10) @ [str_digit (n mod 10)])"

declare str_nat.simps [simp del]

text \<open>
  \<^verbatim>\<open>response.raise_for_status()\<close>: raises \<^verbatim>\<open>HTTPError\<close> for a status code in 400..599.
\<close>

definition raise_for_status :: "response \<Rightarrow> unit py" where
  "raise_for_status r =
     (if 400 \<le> status_code r \<and> status_code r < 500 then
        py_raise (Exception (str_nat (status_code r) @ '' Client Error: '' @ reason r
                             @ '' for url: '' @ response_url r))
      else if 500 \<le> status_code r \<and> status_code r < 600 then
        py_raise (Exception (str_nat (status_code r) @ '' Server Error: '' @ reason r
                             @ '' for url: '' @ response_url r))
      else py_return ())"

definition df_empty :: "dataframe \<Rightarrow> bool" where
  "df_empty df = (columns df = [] \<or> rows df = [])"

definition df_head :: "nat \<Rightarrow> dataframe \<Rightarrow> dataframe" where
  "df_head n df = DataFrame (columns df) (take n (rows df))"

subsection \<open>USITC scraper\<close>

record tariff_record =
  HS_Code :: string
  Product :: string
  Tariff_Rate :: string
  Unit :: string
  Effective_Date :: string

text \<open>\<^verbatim>\<open>pd.DataFrame(results)\<close> for a list of such dictionaries.\<close>

definition pd_DataFrame :: "tariff_record list \<Rightarrow> dataframe" where
  "pd_DataFrame results =
     DataFrame
       (if results = [] then []
        else [''HS Code'', ''Product'', ''Tariff Rate'', ''Unit'', ''Effective Date''])
       (map (\<lambda>r. [HS_Code r, Product r, Tariff_Rate r, Unit r, Effective_Date r]) results)"

text \<open>The loop over the selected rows, with \<open>results\<close> as its accumulator.\<close>

fun usitc_rows :: "row list \<Rightarrow> tariff_record list \<Rightarrow> tariff_record list" where
  "usitc_rows [] results = results"
| "usitc_rows (cells # rest) results =
     (if length cells \<ge> 5 then
        usitc_rows rest
          (results @ [\<lparr>HS_Code = get_text (cells ! 0),
                       Product = get_text (cells ! 1),
                       Tariff_Rate = get_text (cells ! 2),
                       Unit = get_text (cells ! 3),
                       Effective_Date = get_text (cells ! 4)\<rparr>])
      else usitc_rows rest results)"

definition usitc_request :: "string \<Rightarrow> request" where
  "usitc_request hs_code =
     \<lparr>url = ''https://hts.usitc.gov/?query='' @ hs_code, timeout = Some 10\<rparr>"

definition scrape_usitc_tariffs :: "env \<Rightarrow> string \<Rightarrow> dataframe py" where
  "scrape_usitc_tariffs env hs_code =
     try_except
       (py_bind (requests_get env (usitc_request hs_code)) (\<lambda>response.
        py_bind (raise_for_status response) (\<lambda>_.
        py_return (pd_DataFrame (usitc_rows (search_results_rows (html response)) [])))))
       (\<lambda>e. py_bind (st_error (''Error fetching data from USITC: '' @ str e)) (\<lambda>_.
             py_return (DataFrame [] [])))"

subsection \<open>WTO scraper\<close>

definition pd_read_excel :: "env \<Rightarrow> string \<Rightarrow> nat \<Rightarrow> nat \<Rightarrow> dataframe py" where
  "pd_read_excel env u sheet_name skiprows =
     py_bind (emit (ReadExcel u sheet_name skiprows)) (\<lambda>_. outcome (excel env))"

definition wto_url :: string where
  "wto_url = ''https://www.wto.org/english/res_e/booksp_e/tariff_profiles21_e.xlsx''"

definition scrape_wto_tariffs :: "env \<Rightarrow> dataframe py" where
  "scrape_wto_tariffs env =
     try_except
       (py_bind (pd_read_excel env wto_url 1 6) (\<lambda>df. py_return (df_head 10 df)))
       (\<lambda>e. py_bind (st_error (''Failed to load WTO data: '' @ str e)) (\<lambda>_.
             py_return (DataFrame [] [])))"

subsection \<open>USTR parser\<close>

definition endswith :: "string \<Rightarrow> string \<Rightarrow> bool" where
  "endswith s suf = (length suf \<le> length s \<and> drop (length s - length suf) s = suf)"

text \<open>
  The comprehension
  \<^verbatim>\<open>[link.get("href") for link in links if link.get("href") and link.get("href").endswith(".pdf")]\<close>.
\<close>

fun updates :: "tag list \<Rightarrow> string list" where
  "updates [] = []"
| "updates (link # links) =
     (case attrs link ''href'' of
        None \<Rightarrow> updates links
      | Some href \<Rightarrow>
          if href \<noteq> [] \<and> endswith href ''.pdf'' then href # updates links
          else updates links)"

definition ustr_request :: request where
  "ustr_request =
     \<lparr>url = ''https://ustr.gov/issue-areas/enforcement/section-301-investigations/tariff-actions'',
      timeout = None\<rparr>"

definition get_ustr_updates :: "env \<Rightarrow> string list py" where
  "get_ustr_updates env =
     try_except
       (py_bind (requests_get env ustr_request) (\<lambda>response.
        py_return (take 5 (updates (view_content_links (html response))))))
       (\<lambda>e. py_bind (st_error (''Failed to load USTR updates: '' @ str e)) (\<lambda>_.
             py_return []))"

subsection \<open>Email notification\<close>

definition smtplib_SMTP :: "env \<Rightarrow> string \<Rightarrow> nat \<Rightarrow> nat option \<Rightarrow> unit py" where
  "smtplib_SMTP env host port tmo =
     py_bind (emit (SmtpConnect host port tmo)) (\<lambda>_. may_raise (smtp_connect env))"

definition server_starttls :: "env \<Rightarrow> unit py" where
  "server_starttls env = py_bind (emit SmtpStartTLS) (\<lambda>_. may_raise (smtp_starttls env))"

definition server_login :: "env \<Rightarrow> string \<Rightarrow> string \<Rightarrow> unit py" where
  "server_login env user password =
     py_bind (emit (SmtpLogin user password)) (\<lambda>_. may_raise (smtp_login env))"

definition server_send_message :: "env \<Rightarrow> message \<Rightarrow> unit py" where
  "server_send_message env msg =
     py_bind (emit (SmtpSendMessage msg)) (\<lambda>_. may_raise (smtp_send_message env))"

definition server_exit :: "env \<Rightarrow> unit py" where
  "server_exit env = py_bind (emit SmtpQuit) (\<lambda>_. may_raise (smtp_quit env))"

text \<open>
  \<^verbatim>\<open>with ... as server: body\<close>: the exit runs whether or not the body raised, and an
  exception of the exit replaces the body's.
\<close>

definition with_exit :: "unit py \<Rightarrow> 'a py \<Rightarrow> 'a py" where
  "with_exit exit body =
     (\<lambda>w. case body w of
            (Inl e, w') \<Rightarrow>
              (case exit w' of (Inl e', w'') \<Rightarrow> (Inl e', w'') | (Inr _, w'') \<Rightarrow> (Inl e, w''))
          | (Inr v, w') \<Rightarrow>
              (case exit w' of (Inl e', w'') \<Rightarrow> (Inl e', w'') | (Inr _, w'') \<Rightarrow> (Inr v, w'')))"

definition send_email_alert :: "env \<Rightarrow> string \<Rightarrow> string \<Rightarrow> bool py" where
  "send_email_alert env subject body =
     try_except
       (py_bind (st_secrets env ''sendgrid_user'') (\<lambda>sender.
        py_bind (st_secrets env ''alert_recipient'') (\<lambda>recipient.
        py_bind (smtplib_SMTP env ''smtp.sendgrid.net'' 587 None) (\<lambda>_.
        py_bind (with_exit (server_exit env)
                   (py_bind (server_starttls env) (\<lambda>_.
                    py_bind (st_secrets env ''sendgrid_api_key'') (\<lambda>api_key.
                    py_bind (server_login env ''apikey'' api_key) (\<lambda>_.
                    server_send_message env
                      \<lparr>msg_from = sender, msg_to = recipient,
                       msg_subject = subject, msg_body = body\<rparr>))))) (\<lambda>_.
        py_return True)))))
       (\<lambda>e. py_bind (st_error (''Failed to send email: '' @ str e)) (\<lambda>_.
             py_return False))"

subsection \<open>The Firestore collection\<close>

text \<open>
  The collection is the external Firestore service, of which the script uses two calls.
  \<^verbatim>\<open>add\<close> creates a document under a newly generated id (the write is rejected when a
  document of that id exists) and the server replaces the sentinel
  \<^verbatim>\<open>firestore.SERVER_TIMESTAMP\<close> by its own time at the write.
  \<^verbatim>\<open>order_by("timestamp", direction=DESCENDING).stream()\<close> returns the documents by
  descending timestamp, documents of equal timestamp by descending document id. The
  documents are those this script writes: each holds the four fields of line 107 to 112.
\<close>

definition new_doc :: "string \<Rightarrow> nat \<Rightarrow> payload \<Rightarrow> doc" where
  "new_doc i now p =
     \<lparr>doc_id = i, query = p_query p, country = p_country p, tariff_type = p_tariff_type p,
      timestamp = (case p_timestamp p of SERVER_TIMESTAMP \<Rightarrow> now | ClientTimestamp t \<Rightarrow> t)\<rparr>"

definition create_doc :: "string \<Rightarrow> nat \<Rightarrow> payload \<Rightarrow> unit py" where
  "create_doc i now p =
     (\<lambda>w. if i \<in> set (map doc_id (watchlist w))
          then (Inl (Exception (''409 Document already exists: '' @ i)), w)
          else (Inr (), w\<lparr>watchlist := watchlist w @ [new_doc i now p]\<rparr>))"

definition collection_add :: "env \<Rightarrow> payload \<Rightarrow> unit py" where
  "collection_add env p =
     py_bind (emit (FirestoreAdd p)) (\<lambda>_.
     py_bind (outcome (firestore_add env)) (\<lambda>(i, now). create_doc i now p))"

definition order_by_timestamp_desc :: "doc list \<Rightarrow> doc list" where
  "order_by_timestamp_desc docs = rev (sort_key (\<lambda>d. (timestamp d, doc_id d)) docs)"

definition collection_stream :: "env \<Rightarrow> doc list py" where
  "collection_stream env =
     py_bind (emit FirestoreStream) (\<lambda>_.
     py_bind (may_raise (firestore_stream env)) (\<lambda>_.
     (\<lambda>w. (Inr (order_by_timestamp_desc (watchlist w)), w))))"

subsection \<open>Module-level code\<close>

definition newline :: string where
  "newline = [CHR 0x0A]"

text \<open>
  The four labels that do not start with a letter, as the bytes of the source file (lines
  104, 126, 132 and 167).
\<close>

definition add_button_label :: string where
  "add_button_label =
     [CHR 0xE2, CHR 0x80, CHR 0x9A, CHR 0xC3, CHR 0xBB, CHR 0xC3, CHR 0xAF]
       @ '' Add to Watchlist''"

definition wto_subheader :: string where
  "wto_subheader =
     [CHR 0xEF, CHR 0xA3, CHR 0xBF, CHR 0xC3, CHR 0xBC, CHR 0xC3, CHR 0xA5, CHR 0xC3, CHR 0xAA]
       @ '' WTO Tariff Profiles (Preview)''"

definition ustr_subheader :: string where
  "ustr_subheader =
     [CHR 0xEF, CHR 0xA3, CHR 0xBF, CHR 0xC3, CHR 0xBC, CHR 0xC3, CHR 0xAC, CHR 0xC3, CHR 0x91]
       @ '' Recent USTR Section 301 Updates''"

definition watchlist_subheader :: string where
  "watchlist_subheader =
     [CHR 0xEF, CHR 0xA3, CHR 0xBF, CHR 0xC3, CHR 0xBC, CHR 0xC3, CHR 0xAE, CHR 0xC3, CHR 0xAE]
       @ '' My Watchlist''"

text \<open>The dictionary of lines 107 to 112 and the f-string of line 118.\<close>

definition add_payload :: "string \<Rightarrow> string \<Rightarrow> string \<Rightarrow> payload" where
  "add_payload q c tt =
     \<lparr>p_query = q, p_country = c, p_tariff_type = tt, p_timestamp = SERVER_TIMESTAMP\<rparr>"

definition alert_body :: "string \<Rightarrow> string \<Rightarrow> string \<Rightarrow> string" where
  "alert_body q c tt =
     ''You added the following to your watchlist:'' @ newline @ newline
       @ ''Product/HS Code: '' @ q @ newline @ ''Country: '' @ c @ newline
       @ ''Tariff Type: '' @ tt"

text \<open>The body of \<^verbatim>\<open>if st.button("Add to Watchlist"):\<close> (lines 105 to 121).\<close>

definition watchlist_add :: "env \<Rightarrow> string \<Rightarrow> string \<Rightarrow> string \<Rightarrow> unit py" where
  "watchlist_add env q c tt =
     try_except
       (py_bind (collection_add env (add_payload q c tt)) (\<lambda>_.
        py_bind (st_success ''Added to watchlist.'') (\<lambda>_.
        py_bind (send_email_alert env ''New Tariff Watchlist Item Added''
                   (alert_body q c tt)) (\<lambda>_.
        py_return ()))))
       (\<lambda>e. st_error (''Failed to add to watchlist: '' @ str e))"

text \<open>Lines 96 to 123.\<close>

definition fetch_usitc_data :: "env \<Rightarrow> string \<Rightarrow> string \<Rightarrow> string \<Rightarrow> unit py" where
  "fetch_usitc_data env q c tt =
     (if q \<noteq> [] \<and> c = ''United States'' then
        py_bind (st_subheader ''Live USITC Results'') (\<lambda>_.
        py_bind (scrape_usitc_tariffs env q) (\<lambda>usitc_data.
        if \<not> df_empty usitc_data then
          py_bind (st_dataframe usitc_data) (\<lambda>_.
          py_bind (st_button env add_button_label) (\<lambda>clicked.
          if clicked then watchlist_add env q c tt else py_return ()))
        else st_info ''No results found or invalid HS code.''))
      else py_return ())"

text \<open>Lines 125 to 129.\<close>

definition wto_data_preview :: "env \<Rightarrow> unit py" where
  "wto_data_preview env =
     py_bind (st_subheader wto_subheader) (\<lambda>_.
     py_bind (scrape_wto_tariffs env) (\<lambda>wto_data.
     if \<not> df_empty wto_data then st_dataframe wto_data else py_return ()))"

text \<open>Lines 131 to 135.\<close>

definition ustr_pdf_links :: "env \<Rightarrow> unit py" where
  "ustr_pdf_links env =
     py_bind (st_subheader ustr_subheader) (\<lambda>_.
     py_bind (get_ustr_updates env) (\<lambda>ustr_links.
     for_each ustr_links (\<lambda>link. st_markdown (''- [View Update]('' @ link @ '')''))))"

text \<open>Lines 96 to 135: the three sources, one after the other.\<close>

definition fetch_sources :: "env \<Rightarrow> string \<Rightarrow> string \<Rightarrow> string \<Rightarrow> unit py" where
  "fetch_sources env q c tt =
     py_bind (fetch_usitc_data env q c tt) (\<lambda>_.
     py_bind (wto_data_preview env) (\<lambda>_.
     ustr_pdf_links env))"

text \<open>Lines 166 to 177.\<close>

definition watchlist_items :: "doc list \<Rightarrow> string list list" where
  "watchlist_items docs = map (\<lambda>d. [query d, country d, tariff_type d]) docs"

definition watchlist_display :: "env \<Rightarrow> unit py" where
  "watchlist_display env =
     py_bind (st_subheader watchlist_subheader) (\<lambda>_.
     try_except
       (py_bind (collection_stream env) (\<lambda>docs.
        if watchlist_items docs \<noteq> [] then
          st_table (DataFrame [''Query'', ''Country'', ''Tariff Type''] (watchlist_items docs))
        else st_info ''No items in your watchlist yet.''))
       (\<lambda>e. st_error (''Error fetching watchlist: '' @ str e)))"

subsection \<open>Proof support\<close>

text \<open>
  \<open>quiet P Q m\<close>: whatever the world, \<open>m\<close> only appends events satisfying \<open>P\<close> to the
  trace, leaves the collection alone, and a value it returns satisfies \<open>Q\<close>.
\<close>

definition quiet :: "(event \<Rightarrow> bool) \<Rightarrow> ('a \<Rightarrow> bool) \<Rightarrow> 'a py \<Rightarrow> bool" where
  "quiet P Q m =
     (\<forall>w. \<exists>r w' evs. m w = (r, w') \<and> trace w' = trace w @ evs \<and> watchlist w' = watchlist w
        \<and> (\<forall>e\<in>set evs. P e) \<and> (case r of Inl _ \<Rightarrow> True | Inr v \<Rightarrow> Q v))"

text \<open>The events of an SMTP session opened without a timeout.\<close>

fun smtp_event :: "event \<Rightarrow> bool" where
  "smtp_event (SmtpConnect h p t) = (t = None)"
| "smtp_event SmtpStartTLS = True"
| "smtp_event (SmtpLogin u k) = True"
| "smtp_event (SmtpSendMessage m) = True"
| "smtp_event SmtpQuit = True"
| "smtp_event _ = False"

subsection \<open>Concrete inputs\<close>

definition td :: "string \<Rightarrow> tag" where
  "td s = \<lparr>attrs = Map.empty, get_text = s\<rparr>"

definition anchor :: "string \<Rightarrow> tag" where
  "anchor href = \<lparr>attrs = [''href'' \<mapsto> href], get_text = ''View''\<rparr>"

definition page :: "nat \<Rightarrow> string \<Rightarrow> row list \<Rightarrow> tag list \<Rightarrow> response" where
  "page code rsn rs links =
     \<lparr>status_code = code, reason = rsn, response_url = ''https://example.org/'',
      html = \<lparr>search_results_rows = rs, view_content_links = links\<rparr>\<rparr>"

definition fresh :: world where
  "fresh = \<lparr>trace = [], watchlist = []\<rparr>"

text \<open>Nothing reachable, nothing configured, button not pressed.\<close>

definition offline :: env where
  "offline =
     \<lparr>http = (\<lambda>_. Inl (Exception ''offline'')),
      excel = Inl (Exception ''offline''),
      secrets = (\<lambda>k. Inl (Exception (''st.secrets has no key '' @ k))),
      smtp_connect = None, smtp_starttls = None, smtp_login = None,
      smtp_send_message = None, smtp_quit = None,
      firestore_add = Inl (Exception ''offline''),
      firestore_stream = None,
      button = False\<rparr>"

definition tea_rows :: "row list" where
  "tea_rows =
     [[td ''0902.10'', td ''Green Tea'', td ''6.4%'', td ''kg'', td ''2025-04-01''],
      [td ''0902'', td ''Tea'', td ''see below''],
      [td ''0902.30'', td ''Black Tea'', td ''8.0%'', td ''kg'', td ''2025-04-01'']]"

definition tea_env :: env where
  "tea_env = offline\<lparr>http := (\<lambda>_. Inr (page 200 ''OK'' tea_rows []))\<rparr>"

definition six_anchors :: "tag list" where
  "six_anchors =
     [anchor ''/a.pdf'', anchor ''/b.html'', anchor ''/c.pdf'', anchor ''/d.pdf'',
      anchor ''/e.pdf'', anchor ''/f.pdf'']"

definition six_anchor_env :: env where
  "six_anchor_env = offline\<lparr>http := (\<lambda>_. Inr (page 200 ''OK'' [] six_anchors))\<rparr>"

definition http_500_env :: env where
  "http_500_env =
     offline\<lparr>http := (\<lambda>_. Inr (page 500 ''Internal Server Error'' tea_rows
                                 [anchor ''/maintenance.pdf'']))\<rparr>"

text \<open>
  The USITC page and the spreadsheet are served; the USTR page answers with status 500 and
  an error page that links to a PDF.
\<close>

definition ustr_500_env :: env where
  "ustr_500_env =
     offline\<lparr>http := (\<lambda>req. if req = ustr_request
                          then Inr (page 500 ''Internal Server Error'' []
                                      [anchor ''/maintenance.pdf''])
                          else Inr (page 200 ''OK'' tea_rows [])),
             excel := Inr (DataFrame [''Reporter'', ''Simple average''] [[''Canada'', ''3.9'']])\<rparr>"

definition store_env :: "string \<Rightarrow> nat \<Rightarrow> env" where
  "store_env i now = offline\<lparr>firestore_add := Inr (i, now)\<rparr>"

definition mail_env :: env where
  "mail_env =
     offline\<lparr>secrets :=
       (\<lambda>k. if k = ''sendgrid_user'' then Inr ''tracker@example.org''
            else if k = ''alert_recipient'' then Inr ''me@example.org''
            else if k = ''sendgrid_api_key'' then Inr ''key''
            else Inl (Exception (''st.secrets has no key '' @ k)))\<rparr>"

definition save_env :: env where
  "save_env = tea_env\<lparr>firestore_add := Inr (''a1'', 7), button := True\<rparr>"

section \<open>Properties\<close>

subsection \<open>The monad\<close>

lemmas py_defs =
  py_bind_def py_return_def py_raise_def try_except_def emit_def outcome_def may_raise_def
  st_subheader_def st_error_def st_info_def st_success_def st_dataframe_def st_table_def
  st_markdown_def st_button_def st_secrets_def requests_get_def

lemma quiet_return: "Q v \<Longrightarrow> quiet P Q (py_return v)"
  by (simp add: quiet_def py_return_def)

lemma quiet_raise: "quiet P Q (py_raise e)"
  by (simp add: quiet_def py_raise_def)

lemma quiet_emit: "P ev \<Longrightarrow> quiet P (\<lambda>_. True) (emit ev)"
  by (simp add: quiet_def emit_def)

lemma quiet_may_raise: "quiet P (\<lambda>_. True) (may_raise r)"
  by (cases r) (simp_all add: may_raise_def quiet_return quiet_raise)

lemma quiet_st_secrets: "quiet P (\<lambda>_. True) (st_secrets env k)"
  by (cases "secrets env k") (simp_all add: st_secrets_def outcome_def quiet_return quiet_raise)

lemma quiet_bind:
  assumes m: "quiet P R m" and f: "\<And>v. R v \<Longrightarrow> quiet P Q (f v)"
  shows "quiet P Q (py_bind m f)"
  unfolding quiet_def
proof
  fix w
  from m obtain r w1 evs where 1: "m w = (r, w1)" "trace w1 = trace w @ evs"
    "watchlist w1 = watchlist w"
    and 2: "\<forall>e\<in>set evs. P e" and 3: "case r of Inl _ \<Rightarrow> True | Inr v \<Rightarrow> R v"
    unfolding quiet_def by blast
  show "\<exists>r w' evs. py_bind m f w = (r, w') \<and> trace w' = trace w @ evs
          \<and> watchlist w' = watchlist w \<and> (\<forall>e\<in>set evs. P e)
          \<and> (case r of Inl _ \<Rightarrow> True | Inr v \<Rightarrow> Q v)"
  proof (cases r)
    case (Inl e)
    then have "py_bind m f w = (Inl e, w1)"
      using 1 by (simp add: py_bind_def)
    then show ?thesis using 1 2 by (intro exI[of _ "Inl e"] exI[of _ w1] exI[of _ evs]) simp
  next
    case (Inr v)
    with 3 have "R v" by simp
    from f[OF this] obtain r' w2 evs' where
      4: "f v w1 = (r', w2)" "trace w2 = trace w1 @ evs'" "watchlist w2 = watchlist w1"
      and 5: "\<forall>e\<in>set evs'. P e" and 6: "case r' of Inl _ \<Rightarrow> True | Inr v \<Rightarrow> Q v"
      unfolding quiet_def by blast
    have "py_bind m f w = (r', w2)"
      using 1 4 Inr by (simp add: py_bind_def)
    then show ?thesis using 1 4 2 5 6
      by (intro exI[of _ r'] exI[of _ w2] exI[of _ "evs @ evs'"]) auto
  qed
qed

lemma quiet_with_exit:
  assumes "quiet P (\<lambda>_. True) exit" "quiet P Q body"
  shows "quiet P Q (with_exit exit body)"
  unfolding quiet_def
proof
  fix w
  from assms(2) obtain r w1 evs where 1: "body w = (r, w1)" "trace w1 = trace w @ evs"
    "watchlist w1 = watchlist w"
    and 2: "\<forall>e\<in>set evs. P e" and 3: "case r of Inl _ \<Rightarrow> True | Inr v \<Rightarrow> Q v"
    unfolding quiet_def by blast
  from assms(1) obtain r' w2 evs' where
      4: "exit w1 = (r', w2)" "trace w2 = trace w1 @ evs'" "watchlist w2 = watchlist w1"
      and 5: "\<forall>e\<in>set evs'. P e"
      unfolding quiet_def by blast
  have "\<exists>r''. with_exit exit body w = (r'', w2) \<and> (case r'' of Inl _ \<Rightarrow> True | Inr v \<Rightarrow> Q v)"
    using 1 3 4 by (cases r; cases r') (simp_all add: with_exit_def)
  then obtain r'' where 6: "with_exit exit body w = (r'', w2)"
    "case r'' of Inl _ \<Rightarrow> True | Inr v \<Rightarrow> Q v" by blast
  show "\<exists>r w' evs. with_exit exit body w = (r, w') \<and> trace w' = trace w @ evs
          \<and> watchlist w' = watchlist w \<and> (\<forall>e\<in>set evs. P e)
          \<and> (case r of Inl _ \<Rightarrow> True | Inr v \<Rightarrow> Q v)"
    using 1 4 2 5 6 by (intro exI[of _ r''] exI[of _ w2] exI[of _ "evs @ evs'"]) auto
qed

text \<open>
  A \<^verbatim>\<open>try\<close> whose handler reports the exception and returns \<^verbatim>\<open>False\<close>, around a body
  that returns \<^verbatim>\<open>True\<close>: it never raises, and it returns \<^verbatim>\<open>False\<close> exactly with a report.
\<close>

lemma try_except_report_False:
  assumes "quiet P (\<lambda>v. v) body"
  shows "\<exists>ok w' evs m.
           try_except body
             (\<lambda>e. py_bind (st_error (p @ str e)) (\<lambda>_. py_return False)) w = (Inr ok, w')
         \<and> watchlist w' = watchlist w \<and> (\<forall>e\<in>set evs. P e)
         \<and> trace w' = trace w @ evs @ (if ok then [] else [StError (p @ m)])"
proof -
  from assms obtain r w1 evs where 1: "body w = (r, w1)" "trace w1 = trace w @ evs"
    "watchlist w1 = watchlist w" "\<forall>e\<in>set evs. P e"
    and 3: "case r of Inl _ \<Rightarrow> True | Inr v \<Rightarrow> v"
    unfolding quiet_def by blast
  show ?thesis
  proof (cases r)
    case (Inl e)
    have "try_except body
             (\<lambda>e. py_bind (st_error (p @ str e)) (\<lambda>_. py_return False)) w
          = (Inr False, w1\<lparr>trace := trace w1 @ [StError (p @ str e)]\<rparr>)"
      using 1 Inl by (simp add: try_except_def py_bind_def st_error_def emit_def py_return_def)
    then show ?thesis using 1
      by (intro exI[of _ False] exI[of _ "w1\<lparr>trace := trace w1 @ [StError (p @ str e)]\<rparr>"]
            exI[of _ evs] exI[of _ "str e"]) simp
  next
    case (Inr v)
    with 3 have v by simp
    then have "try_except body
             (\<lambda>e. py_bind (st_error (p @ str e)) (\<lambda>_. py_return False)) w = (Inr True, w1)"
      using 1 Inr by (simp add: try_except_def)
    then show ?thesis using 1
      by (intro exI[of _ True] exI[of _ w1] exI[of _ evs] exI[of _ "[]"]) simp
  qed
qed

subsection \<open>What each scraper returns\<close>

lemma usitc_rows_acc: "usitc_rows rs acc = acc @ usitc_rows rs []"
proof (induction rs arbitrary: acc)
  case Nil
  show ?case by simp
next
  case (Cons cells rest)
  show ?case
  proof (cases "5 \<le> length cells")
    case True
    then show ?thesis
      using Cons.IH[of "acc @ [x]" for x] Cons.IH[of "[x]" for x] by simp
  next
    case False
    then show ?thesis using Cons.IH[of acc] by simp
  qed
qed

lemma usitc_rows_Cons:
  "usitc_rows (cells # rest) [] =
     (if 5 \<le> length cells then
        [\<lparr>HS_Code = get_text (cells ! 0), Product = get_text (cells ! 1),
          Tariff_Rate = get_text (cells ! 2), Unit = get_text (cells ! 3),
          Effective_Date = get_text (cells ! 4)\<rparr>]
      else []) @ usitc_rows rest []"
  using usitc_rows_acc[of rest "[x]" for x] by simp

lemma usitc_rows_concat:
  "usitc_rows rs [] =
     concat (map (\<lambda>cells. if 5 \<le> length cells then
        [\<lparr>HS_Code = get_text (cells ! 0), Product = get_text (cells ! 1),
          Tariff_Rate = get_text (cells ! 2), Unit = get_text (cells ! 3),
          Effective_Date = get_text (cells ! 4)\<rparr>]
      else []) rs)"
  by (induction rs) (simp_all only: usitc_rows.simps(1) usitc_rows_Cons list.map concat.simps)

lemma usitc_rows_length: "length (usitc_rows rs []) \<le> length rs"
  by (induction rs) (simp_all only: usitc_rows.simps(1) usitc_rows_Cons, auto)

lemma df_empty_pd_DataFrame [simp]: "df_empty (pd_DataFrame rs) = (rs = [])"
  by (simp add: df_empty_def pd_DataFrame_def)

lemma df_empty_DataFrame_Nil [simp]: "df_empty (DataFrame [] [])"
  by (simp add: df_empty_def)

lemma scrape_usitc_tariffs_result:
  "scrape_usitc_tariffs env q w =
     (case http env (usitc_request q) of
        Inl e \<Rightarrow>
          (Inr (DataFrame [] []),
           w\<lparr>trace := trace w @ [HttpGet (usitc_request q),
                                  StError (''Error fetching data from USITC: '' @ str e)]\<rparr>)
      | Inr r \<Rightarrow>
          if 400 \<le> status_code r \<and> status_code r < 600 then
            (Inr (DataFrame [] []),
             w\<lparr>trace := trace w @ [HttpGet (usitc_request q),
                StError (''Error fetching data from USITC: '' @ str_nat (status_code r)
                  @ (if status_code r < 500 then '' Client Error: '' else '' Server Error: '')
                  @ reason r @ '' for url: '' @ response_url r)]\<rparr>)
          else
            (Inr (pd_DataFrame (usitc_rows (search_results_rows (html r)) [])),
             w\<lparr>trace := trace w @ [HttpGet (usitc_request q)]\<rparr>))"
  by (simp add: scrape_usitc_tariffs_def raise_for_status_def py_defs split: sum.split)

lemma scrape_usitc_tariffs_sound:
  "\<exists>df w' evs. scrape_usitc_tariffs env q w = (Inr df, w')
     \<and> trace w' = trace w @ HttpGet (usitc_request q) # evs \<and> watchlist w' = watchlist w
     \<and> (\<forall>p. FirestoreAdd p \<notin> set evs) \<and> (\<forall>r. HttpGet r \<notin> set evs)
     \<and> (df_empty df \<or>
          (\<exists>r. http env (usitc_request q) = Inr r
             \<and> \<not> (400 \<le> status_code r \<and> status_code r < 600)
             \<and> df = pd_DataFrame (usitc_rows (search_results_rows (html r)) [])))"
  unfolding scrape_usitc_tariffs_result
  by (cases "http env (usitc_request q)") auto

lemma scrape_wto_tariffs_result:
  "scrape_wto_tariffs env w =
     (case excel env of
        Inl e \<Rightarrow>
          (Inr (DataFrame [] []),
           w\<lparr>trace := trace w @
              [ReadExcel wto_url 1 6, StError (''Failed to load WTO data: '' @ str e)]\<rparr>)
      | Inr df \<Rightarrow> (Inr (df_head 10 df), w\<lparr>trace := trace w @ [ReadExcel wto_url 1 6]\<rparr>))"
  by (simp add: scrape_wto_tariffs_def pd_read_excel_def py_defs split: sum.split)

lemma get_ustr_updates_result:
  "get_ustr_updates env w =
     (case http env ustr_request of
        Inl e \<Rightarrow>
          (Inr [],
           w\<lparr>trace := trace w @ [HttpGet ustr_request,
                                  StError (''Failed to load USTR updates: '' @ str e)]\<rparr>)
      | Inr r \<Rightarrow>
          (Inr (take 5 (updates (view_content_links (html r)))),
           w\<lparr>trace := trace w @ [HttpGet ustr_request]\<rparr>))"
  by (simp add: get_ustr_updates_def py_defs split: sum.split)

lemma updates_filter:
  "updates links =
     filter (\<lambda>h. endswith h ''.pdf'')
       (concat (map (\<lambda>l. case attrs l ''href'' of None \<Rightarrow> [] | Some h \<Rightarrow> [h]) links))"
  by (induction links) (auto simp: endswith_def split: option.split)

subsection \<open>The notifier\<close>

lemma quiet_smtplib_SMTP: "quiet smtp_event (\<lambda>_. True) (smtplib_SMTP env h p None)"
  unfolding smtplib_SMTP_def
  by (intro quiet_bind[where R="\<lambda>_. True"] quiet_emit quiet_may_raise) simp

lemma quiet_server_starttls: "quiet smtp_event (\<lambda>_. True) (server_starttls env)"
  unfolding server_starttls_def
  by (intro quiet_bind[where R="\<lambda>_. True"] quiet_emit quiet_may_raise) simp

lemma quiet_server_login: "quiet smtp_event (\<lambda>_. True) (server_login env u k)"
  unfolding server_login_def
  by (intro quiet_bind[where R="\<lambda>_. True"] quiet_emit quiet_may_raise) simp

lemma quiet_server_send_message: "quiet smtp_event (\<lambda>_. True) (server_send_message env m)"
  unfolding server_send_message_def
  by (intro quiet_bind[where R="\<lambda>_. True"] quiet_emit quiet_may_raise) simp

lemma quiet_server_exit: "quiet smtp_event (\<lambda>_. True) (server_exit env)"
  unfolding server_exit_def
  by (intro quiet_bind[where R="\<lambda>_. True"] quiet_emit quiet_may_raise) simp

lemma send_email_alert_result:
  "\<exists>ok w' evs m. send_email_alert env subject body w = (Inr ok, w')
     \<and> watchlist w' = watchlist w \<and> (\<forall>e\<in>set evs. smtp_event e)
     \<and> trace w' = trace w @ evs @ (if ok then [] else [StError (''Failed to send email: '' @ m)])"
  unfolding send_email_alert_def
  by (rule try_except_report_False)
     (intro quiet_bind[where R="\<lambda>_. True"] quiet_with_exit quiet_st_secrets
        quiet_smtplib_SMTP quiet_server_starttls quiet_server_login
        quiet_server_send_message quiet_server_exit quiet_return, simp)


subsection \<open>The collection\<close>

lemma collection_add_result:
  "collection_add env p w =
     (case firestore_add env of
        Inl e \<Rightarrow> (Inl e, w\<lparr>trace := trace w @ [FirestoreAdd p]\<rparr>)
      | Inr (i, now) \<Rightarrow>
          if i \<in> set (map doc_id (watchlist w))
          then (Inl (Exception (''409 Document already exists: '' @ i)),
                w\<lparr>trace := trace w @ [FirestoreAdd p]\<rparr>)
          else (Inr (), \<lparr>trace = trace w @ [FirestoreAdd p],
                         watchlist = watchlist w @ [new_doc i now p]\<rparr>))"
  by (cases w) (simp add: collection_add_def create_doc_def py_defs split: sum.split prod.split)

lemma collection_add_Inr:
  assumes "collection_add env p w = (Inr u, w')"
  shows "\<exists>i now. firestore_add env = Inr (i, now) \<and> i \<notin> set (map doc_id (watchlist w))
           \<and> w' = \<lparr>trace = trace w @ [FirestoreAdd p],
                    watchlist = watchlist w @ [new_doc i now p]\<rparr>"
proof (cases "firestore_add env")
  case (Inl e)
  with assms show ?thesis by (simp add: collection_add_result)
next
  case (Inr a)
  obtain i now where a: "a = (i, now)" by (cases a)
  show ?thesis
  proof (cases "i \<in> set (map doc_id (watchlist w))")
    case True
    with assms Inr a show ?thesis by (simp add: collection_add_result)
  next
    case False
    with assms Inr a show ?thesis by (simp add: collection_add_result)
  qed
qed

lemma mset_order_by_timestamp_desc: "mset (order_by_timestamp_desc docs) = mset docs"
  by (simp add: order_by_timestamp_desc_def)


lemma sorted_order_by_timestamp_desc:
  "sorted_wrt (\<lambda>a b. timestamp a \<ge> timestamp b) (order_by_timestamp_desc docs)"
proof -
  have "sorted (map (\<lambda>d. (timestamp d, doc_id d)) (sort_key (\<lambda>d. (timestamp d, doc_id d)) docs))"
    by (rule sorted_sort_key)
  then have "sorted_wrt (\<lambda>a b. (timestamp a, doc_id a) \<le> (timestamp b, doc_id b))
               (sort_key (\<lambda>d. (timestamp d, doc_id d)) docs)"
    by (simp add: sorted_map)
  then have "sorted_wrt (\<lambda>a b. timestamp a \<le> timestamp b)
               (sort_key (\<lambda>d. (timestamp d, doc_id d)) docs)"
    by (rule sorted_wrt_mono_rel[rotated]) (auto simp: less_eq_prod_def)
  then show ?thesis
    by (simp add: order_by_timestamp_desc_def sorted_wrt_rev)
qed

lemma insort_key_append_max:
  "f x \<le> f d \<Longrightarrow> insort_key f x (ys @ [d]) = insort_key f x ys @ [d]"
  by (induction ys) auto

lemma foldr_insort_key_max:
  "\<forall>x\<in>set xs. f x \<le> f d \<Longrightarrow> foldr (insort_key f) xs [d] = foldr (insort_key f) xs [] @ [d]"
  by (induction xs) (simp_all add: insort_key_append_max)

lemma order_by_timestamp_desc_latest:
  assumes "\<forall>d\<in>set docs. timestamp d < timestamp new"
  shows "order_by_timestamp_desc (docs @ [new]) = new # order_by_timestamp_desc docs"
proof -
  have "\<forall>x\<in>set docs. (timestamp x, doc_id x) \<le> (timestamp new, doc_id new)"
    using assms by (auto simp: less_eq_prod_def)
  then have "sort_key (\<lambda>d. (timestamp d, doc_id d)) (docs @ [new])
        = sort_key (\<lambda>d. (timestamp d, doc_id d)) docs @ [new]"
    using foldr_insort_key_max[of docs "\<lambda>d. (timestamp d, doc_id d)" new]
    by (simp add: sort_key_def)
  then show ?thesis by (simp add: order_by_timestamp_desc_def)
qed

lemma collection_stream_result:
  "collection_stream env w =
     (case firestore_stream env of
        Some e \<Rightarrow> (Inl e, w\<lparr>trace := trace w @ [FirestoreStream]\<rparr>)
      | None \<Rightarrow> (Inr (order_by_timestamp_desc (watchlist w)),
                 w\<lparr>trace := trace w @ [FirestoreStream]\<rparr>))"
  by (simp add: collection_stream_def py_defs split: option.split)

lemma watchlist_display_result:
  "watchlist_display env w =
     (Inr (), w\<lparr>trace := trace w @ StSubheader watchlist_subheader # FirestoreStream #
        (case firestore_stream env of
           Some e \<Rightarrow> [StError (''Error fetching watchlist: '' @ str e)]
         | None \<Rightarrow>
             if watchlist w = [] then [StInfo ''No items in your watchlist yet.'']
             else [StTable (DataFrame [''Query'', ''Country'', ''Tariff Type'']
                     (watchlist_items (order_by_timestamp_desc (watchlist w))))])\<rparr>)"
proof -
  have "length (order_by_timestamp_desc (watchlist w)) = length (watchlist w)"
    by (simp add: order_by_timestamp_desc_def)
  then have "(order_by_timestamp_desc (watchlist w) = []) = (watchlist w = [])"
    by (metis length_0_conv)
  then show ?thesis
    by (cases "firestore_stream env")
       (simp_all add: watchlist_display_def collection_stream_result watchlist_items_def py_defs)
qed

subsection \<open>The save action\<close>

lemma watchlist_add_committed:
  assumes "firestore_add env = Inr (i, now)" "i \<notin> set (map doc_id (watchlist w))"
  shows "watchlist_add env q c tt w =
     (Inr (), snd (send_email_alert env ''New Tariff Watchlist Item Added'' (alert_body q c tt)
        \<lparr>trace = trace w @ [FirestoreAdd (add_payload q c tt),
                             StSuccess ''Added to watchlist.''],
         watchlist = watchlist w @ [new_doc i now (add_payload q c tt)]\<rparr>))"
proof -
  let ?w1 = "\<lparr>trace = trace w @ [FirestoreAdd (add_payload q c tt),
                                StSuccess ''Added to watchlist.''],
             watchlist = watchlist w @ [new_doc i now (add_payload q c tt)]\<rparr>"
  obtain ok w2 where 1: "send_email_alert env ''New Tariff Watchlist Item Added''
      (alert_body q c tt) ?w1 = (Inr ok, w2)"
    using send_email_alert_result by blast
  have 2: "collection_add env (add_payload q c tt) w
        = (Inr (), \<lparr>trace = trace w @ [FirestoreAdd (add_payload q c tt)],
           watchlist = watchlist w @ [new_doc i now (add_payload q c tt)]\<rparr>)"
    using assms by (simp add: collection_add_result)
  show ?thesis
    unfolding watchlist_add_def
    by (simp add: try_except_def py_bind_def st_success_def emit_def py_return_def 1 2)
qed

lemma watchlist_add_rejected:
  assumes "fst (collection_add env (add_payload q c tt) w) = Inl e"
  shows "watchlist_add env q c tt w =
     (Inr (), w\<lparr>trace := trace w @ [FirestoreAdd (add_payload q c tt),
                                    StError (''Failed to add to watchlist: '' @ str e)]\<rparr>)"
proof -
  have "collection_add env (add_payload q c tt) w
        = (Inl e, w\<lparr>trace := trace w @ [FirestoreAdd (add_payload q c tt)]\<rparr>)"
    using assms by (auto simp: collection_add_result split: sum.splits prod.splits if_splits)
  then show ?thesis
    unfolding watchlist_add_def
    by (simp add: try_except_def py_bind_def st_error_def emit_def)
qed

lemma watchlist_add_sound:
  "\<exists>w' evs. watchlist_add env q c tt w = (Inr (), w')
     \<and> trace w' = trace w @ FirestoreAdd (add_payload q c tt) # evs
     \<and> (\<forall>p. FirestoreAdd p \<notin> set evs)
     \<and> (watchlist w' = watchlist w
         \<or> (\<exists>i now. firestore_add env = Inr (i, now)
               \<and> watchlist w' = watchlist w @ [new_doc i now (add_payload q c tt)]))"
proof (cases "fst (collection_add env (add_payload q c tt) w)")
  case (Inl e)
  show ?thesis
    unfolding watchlist_add_rejected[OF Inl]
    by (intro exI[of _ "w\<lparr>trace := trace w @ [FirestoreAdd (add_payload q c tt),
                                    StError (''Failed to add to watchlist: '' @ str e)]\<rparr>"]
          exI[of _ "[StError (''Failed to add to watchlist: '' @ str e)]"]) simp
next
  case (Inr u)
  then obtain w' where "collection_add env (add_payload q c tt) w = (Inr u, w')"
    by (cases "collection_add env (add_payload q c tt) w") simp
  then obtain i now where a: "firestore_add env = Inr (i, now)"
      "i \<notin> set (map doc_id (watchlist w))"
    using collection_add_Inr by blast
  let ?w1 = "\<lparr>trace = trace w @ [FirestoreAdd (add_payload q c tt),
                                StSuccess ''Added to watchlist.''],
             watchlist = watchlist w @ [new_doc i now (add_payload q c tt)]\<rparr>"
  obtain ok w2 evs m where 1: "send_email_alert env ''New Tariff Watchlist Item Added''
      (alert_body q c tt) ?w1 = (Inr ok, w2)" "watchlist w2 = watchlist ?w1"
      "\<forall>e\<in>set evs. smtp_event e"
      "trace w2 = trace ?w1 @ evs @ (if ok then [] else [StError (''Failed to send email: '' @ m)])"
    using send_email_alert_result by blast
  have 2: "watchlist_add env q c tt w = (Inr (), w2)"
    unfolding watchlist_add_committed[OF a] using 1 by simp
  have 3: "\<forall>p. FirestoreAdd p \<notin> set evs"
    using 1(3) by auto
  show ?thesis
    using 1 2 3 a
    by (intro exI[of _ w2] exI[of _ "StSuccess ''Added to watchlist.'' # evs @
               (if ok then [] else [StError (''Failed to send email: '' @ m)])"]) auto
qed

subsection \<open>The panels\<close>

lemma fetch_usitc_data_unfold:
  "fetch_usitc_data env q c tt w =
     (if q \<noteq> [] \<and> c = ''United States'' then
        (case scrape_usitc_tariffs env q (w\<lparr>trace := trace w @ [StSubheader ''Live USITC Results'']\<rparr>) of
           (Inl e, w1) \<Rightarrow> (Inl e, w1)
         | (Inr df, w1) \<Rightarrow>
             if df_empty df
             then (Inr (), w1\<lparr>trace := trace w1 @ [StInfo ''No results found or invalid HS code.'']\<rparr>)
             else if button env
             then watchlist_add env q c tt
                    (w1\<lparr>trace := trace w1 @ [StDataframe df,
                                              StButton add_button_label]\<rparr>)
             else (Inr (), w1\<lparr>trace := trace w1 @ [StDataframe df,
                                              StButton add_button_label]\<rparr>))
      else (Inr (), w))"
  by (simp add: fetch_usitc_data_def py_defs split: sum.split prod.split)

lemma fetch_usitc_data_sound:
  "\<exists>w' evs. fetch_usitc_data env q c tt w = (Inr (), w') \<and> trace w' = trace w @ evs
     \<and> (\<forall>p. FirestoreAdd p \<in> set evs \<longrightarrow>
           p = add_payload q c tt \<and> q \<noteq> [] \<and> c = ''United States'' \<and> button env
           \<and> (\<exists>r. http env (usitc_request q) = Inr r
                 \<and> \<not> (400 \<le> status_code r \<and> status_code r < 600)
                 \<and> usitc_rows (search_results_rows (html r)) [] \<noteq> []))
     \<and> (watchlist w' = watchlist w
         \<or> (\<exists>i now. firestore_add env = Inr (i, now)
               \<and> watchlist w' = watchlist w @ [new_doc i now (add_payload q c tt)]
               \<and> FirestoreAdd (add_payload q c tt) \<in> set evs))"
proof (cases "q \<noteq> [] \<and> c = ''United States''")
  case False
  then have "fetch_usitc_data env q c tt w = (Inr (), w)"
    by (auto simp: fetch_usitc_data_def py_return_def)
  then show ?thesis by (intro exI[of _ w] exI[of _ "[]"]) simp
next
  case guard: True
  let ?w0 = "w\<lparr>trace := trace w @ [StSubheader ''Live USITC Results'']\<rparr>"
  obtain df w1 evs1 where s: "scrape_usitc_tariffs env q ?w0 = (Inr df, w1)"
      "trace w1 = trace ?w0 @ HttpGet (usitc_request q) # evs1" "watchlist w1 = watchlist ?w0"
      "\<forall>p. FirestoreAdd p \<notin> set evs1"
      "df_empty df \<or>
          (\<exists>r. http env (usitc_request q) = Inr r
             \<and> \<not> (400 \<le> status_code r \<and> status_code r < 600)
             \<and> df = pd_DataFrame (usitc_rows (search_results_rows (html r)) []))"
    using scrape_usitc_tariffs_sound by blast
  show ?thesis
  proof (cases "df_empty df")
    case True
    let ?w' = "w1\<lparr>trace := trace w1 @ [StInfo ''No results found or invalid HS code.'']\<rparr>"
    have "fetch_usitc_data env q c tt w = (Inr (), ?w')"
      using guard s(1) True by (simp add: fetch_usitc_data_unfold)
    then show ?thesis using s
      by (intro exI[of _ ?w'] exI[of _ "StSubheader ''Live USITC Results'' #
            HttpGet (usitc_request q) # evs1 @ [StInfo ''No results found or invalid HS code.'']"])
         simp
  next
    case nonempty: False
    with s(5) obtain r where r: "http env (usitc_request q) = Inr r"
        "\<not> (400 \<le> status_code r \<and> status_code r < 600)"
        "usitc_rows (search_results_rows (html r)) [] \<noteq> []"
      by auto
    let ?shown = "[StDataframe df, StButton add_button_label]"
    let ?w2 = "w1\<lparr>trace := trace w1 @ ?shown\<rparr>"
    show ?thesis
    proof (cases "button env")
      case False
      have "fetch_usitc_data env q c tt w = (Inr (), ?w2)"
        using guard s(1) nonempty False by (simp add: fetch_usitc_data_unfold)
      then show ?thesis using s
        by (intro exI[of _ ?w2] exI[of _ "StSubheader ''Live USITC Results'' #
            HttpGet (usitc_request q) # evs1 @ ?shown"]) simp
    next
      case True
      obtain w3 evs3 where a: "watchlist_add env q c tt ?w2 = (Inr (), w3)"
          "trace w3 = trace ?w2 @ FirestoreAdd (add_payload q c tt) # evs3"
          "\<forall>p. FirestoreAdd p \<notin> set evs3"
          "watchlist w3 = watchlist ?w2
             \<or> (\<exists>i now. firestore_add env = Inr (i, now)
               \<and> watchlist w3 = watchlist ?w2 @ [new_doc i now (add_payload q c tt)])"
        using watchlist_add_sound by blast
      have "fetch_usitc_data env q c tt w = (Inr (), w3)"
        using guard s(1) nonempty True a(1) by (simp add: fetch_usitc_data_unfold)
      then show ?thesis using s(2,3,4) a(2,3,4) r guard True
        by (intro exI[of _ w3] exI[of _ "StSubheader ''Live USITC Results'' #
            HttpGet (usitc_request q) # evs1 @ ?shown @ FirestoreAdd (add_payload q c tt) # evs3"])
           auto
    qed
  qed
qed

lemma wto_data_preview_result:
  "wto_data_preview env w =
     (Inr (), w\<lparr>trace := trace w @
        StSubheader wto_subheader #
        ReadExcel wto_url 1 6 #
        (case excel env of
           Inl e \<Rightarrow> [StError (''Failed to load WTO data: '' @ str e)]
         | Inr df \<Rightarrow> if df_empty (df_head 10 df) then [] else [StDataframe (df_head 10 df)])\<rparr>)"
  by (cases "excel env")
     (simp_all add: wto_data_preview_def scrape_wto_tariffs_result py_defs)

lemma for_each_st_markdown:
  "for_each links (\<lambda>link. st_markdown (f link)) w =
     (Inr (), w\<lparr>trace := trace w @ map (\<lambda>link. StMarkdown (f link)) links\<rparr>)"
  by (induction links arbitrary: w) (simp_all add: py_defs)

lemma ustr_pdf_links_result:
  "ustr_pdf_links env w =
     (Inr (), w\<lparr>trace := trace w @
        StSubheader ustr_subheader #
        HttpGet ustr_request #
        (case http env ustr_request of
           Inl e \<Rightarrow> [StError (''Failed to load USTR updates: '' @ str e)]
         | Inr r \<Rightarrow> map (\<lambda>link. StMarkdown (''- [View Update]('' @ link @ '')''))
                     (take 5 (updates (view_content_links (html r)))))\<rparr>)"
  by (cases "http env ustr_request")
     (simp_all add: ustr_pdf_links_def get_ustr_updates_result for_each_st_markdown py_bind_def
        st_subheader_def emit_def py_return_def)

lemma usitc_request_neq_ustr_request: "usitc_request q \<noteq> ustr_request"
  by (simp add: usitc_request_def ustr_request_def)

lemma scrape_usitc_tariffs_frame:
  "scrape_usitc_tariffs (env\<lparr>excel := x, http := (http env)(ustr_request := y)\<rparr>) q
     = scrape_usitc_tariffs env q"
  by (simp add: scrape_usitc_tariffs_def requests_get_def usitc_request_neq_ustr_request)

lemma send_email_alert_frame:
  "send_email_alert (env\<lparr>excel := x, http := h\<rparr>) = send_email_alert env"
  by (simp add: send_email_alert_def smtplib_SMTP_def server_starttls_def
      server_login_def server_send_message_def server_exit_def st_secrets_def fun_eq_iff)

lemma watchlist_add_frame:
  "watchlist_add (env\<lparr>excel := x, http := h\<rparr>) = watchlist_add env"
  by (simp add: watchlist_add_def send_email_alert_frame collection_add_def fun_eq_iff)

lemma fetch_usitc_data_frame:
  "fetch_usitc_data (env\<lparr>excel := x, http := (http env)(ustr_request := y)\<rparr>) q c tt w
     = fetch_usitc_data env q c tt w"
  by (simp add: fetch_usitc_data_def scrape_usitc_tariffs_frame watchlist_add_frame
      st_button_def cong: if_cong)

lemma fetch_sources_after_usitc:
  assumes "fetch_usitc_data env q c tt w = (Inr (), w1)"
  shows "fetch_sources env q c tt w =
     (Inr (), w1\<lparr>trace := trace w1 @
        StSubheader wto_subheader #
        ReadExcel wto_url 1 6 #
        (case excel env of
           Inl e \<Rightarrow> [StError (''Failed to load WTO data: '' @ str e)]
         | Inr df \<Rightarrow> if df_empty (df_head 10 df) then [] else [StDataframe (df_head 10 df)]) @
        StSubheader ustr_subheader #
        HttpGet ustr_request #
        (case http env ustr_request of
           Inl e \<Rightarrow> [StError (''Failed to load USTR updates: '' @ str e)]
         | Inr r \<Rightarrow> map (\<lambda>link. StMarkdown (''- [View Update]('' @ link @ '')''))
                     (take 5 (updates (view_content_links (html r)))))\<rparr>)"
  using assms
  by (simp add: fetch_sources_def py_bind_def wto_data_preview_result ustr_pdf_links_result)

lemma fetch_sources_sound:
  "\<exists>w' evs. fetch_sources env q c tt w = (Inr (), w') \<and> trace w' = trace w @ evs
     \<and> (\<forall>p. FirestoreAdd p \<in> set evs \<longrightarrow>
           p = add_payload q c tt \<and> q \<noteq> [] \<and> c = ''United States'' \<and> button env
           \<and> (\<exists>r. http env (usitc_request q) = Inr r
                 \<and> \<not> (400 \<le> status_code r \<and> status_code r < 600)
                 \<and> usitc_rows (search_results_rows (html r)) [] \<noteq> []))
     \<and> (watchlist w' = watchlist w
         \<or> (\<exists>i now. firestore_add env = Inr (i, now)
               \<and> watchlist w' = watchlist w @ [new_doc i now (add_payload q c tt)]
               \<and> FirestoreAdd (add_payload q c tt) \<in> set evs))"
  (is "\<exists>w' evs. ?run w' \<and> ?tr w' evs \<and> ?guarded evs \<and> ?stored w' evs")
proof -
  from fetch_usitc_data_sound[of env q c tt w]
  obtain w1 evs1 where 1: "fetch_usitc_data env q c tt w = (Inr (), w1) \<and> ?tr w1 evs1
      \<and> ?guarded evs1 \<and> ?stored w1 evs1"
    by (elim exE)
  define evs2 where "evs2 =
        StSubheader wto_subheader #
        ReadExcel wto_url 1 6 #
        (case excel env of
           Inl e \<Rightarrow> [StError (''Failed to load WTO data: '' @ str e)]
         | Inr df \<Rightarrow> if df_empty (df_head 10 df) then [] else [StDataframe (df_head 10 df)]) @
        StSubheader ustr_subheader #
        HttpGet ustr_request #
        (case http env ustr_request of
           Inl e \<Rightarrow> [StError (''Failed to load USTR updates: '' @ str e)]
         | Inr r \<Rightarrow> map (\<lambda>link. StMarkdown (''- [View Update]('' @ link @ '')''))
                     (take 5 (updates (view_content_links (html r)))))"
  let ?w' = "w1\<lparr>trace := trace w1 @ evs2\<rparr>"
  have 2: "?run ?w'"
    unfolding evs2_def by (rule fetch_sources_after_usitc) (simp add: 1)
  have 3: "FirestoreAdd p \<notin> set evs2" for p
    unfolding evs2_def
    by (cases "excel env"; cases "http env ustr_request") (simp_all add: image_iff)
  have 4: "?tr ?w' (evs1 @ evs2)"
    using 1 by simp
  have 5: "FirestoreAdd p \<in> set (evs1 @ evs2) \<longleftrightarrow> FirestoreAdd p \<in> set evs1" for p
    using 3 by simp
  have 6: "?guarded (evs1 @ evs2)"
    unfolding 5 using 1 by (elim conjE)
  have 7: "?stored ?w' (evs1 @ evs2)"
    unfolding 5 using 1 by simp
  show ?thesis
    using 2 4 6 7 by (intro exI[of _ ?w'] exI[of _ "evs1 @ evs2"] conjI)
qed

lemma save_env_run:
  "fetch_usitc_data save_env ''0902'' ''United States'' ''Applied'' fresh =
     (Inr (),
      \<lparr>trace =
         [StSubheader ''Live USITC Results'',
          HttpGet (usitc_request ''0902''),
          StDataframe (pd_DataFrame (usitc_rows tea_rows [])),
          StButton add_button_label,
          FirestoreAdd (add_payload ''0902'' ''United States'' ''Applied''),
          StSuccess ''Added to watchlist.'',
          StError ''Failed to send email: st.secrets has no key sendgrid_user''],
       watchlist = [\<lparr>doc_id = ''a1'', query = ''0902'', country = ''United States'',
                      tariff_type = ''Applied'', timestamp = 7\<rparr>]\<rparr>)"
proof -
  have rows: "usitc_rows tea_rows [] \<noteq> []"
    by (simp add: tea_rows_def td_def)
  have h: "http save_env (usitc_request ''0902'') = Inr (page 200 ''OK'' tea_rows [])"
    by (simp add: save_env_def tea_env_def)
  have f: "firestore_add save_env = Inr (''a1'', 7)" and b: "button save_env"
    and s: "secrets save_env ''sendgrid_user''
              = Inl (Exception ''st.secrets has no key sendgrid_user'')"
    by (simp_all add: save_env_def tea_env_def offline_def)
  have mail: "send_email_alert save_env subject body w =
      (Inr False, w\<lparr>trace := trace w @
         [StError ''Failed to send email: st.secrets has no key sendgrid_user'']\<rparr>)"
    for subject body w
    by (simp add: send_email_alert_def py_defs s)
  have add: "watchlist_add save_env ''0902'' ''United States'' ''Applied'' w =
      (Inr (), \<lparr>trace = trace w @ [FirestoreAdd (add_payload ''0902'' ''United States'' ''Applied''),
          StSuccess ''Added to watchlist.'',
          StError ''Failed to send email: st.secrets has no key sendgrid_user''],
         watchlist = [\<lparr>doc_id = ''a1'', query = ''0902'', country = ''United States'',
                      tariff_type = ''Applied'', timestamp = 7\<rparr>]\<rparr>)"
    if "watchlist w = []" for w
    using that by (simp add: watchlist_add_committed[OF f] mail new_doc_def add_payload_def)
  show ?thesis
    by (simp add: fetch_usitc_data_unfold scrape_usitc_tariffs_result h page_def rows b add
        fresh_def)
qed

text \<open>
  C1. For the rows the USITC page yields, the table extractor emits one record for a row
  exactly when the row has at least 5 cells, taking cells 0..4 in order as HS code,
  product, tariff rate, unit and effective date (further cells are ignored); a shorter row
  yields nothing and no error. So the records never outnumber the rows, and when the page
  is fetched without an HTTP error the scraper returns these records with no error shown.
\<close>

theorem usitc_rows_positional:
  "usitc_rows rs [] =
     concat (map (\<lambda>cells. if 5 \<le> length cells then
        [\<lparr>HS_Code = get_text (cells ! 0), Product = get_text (cells ! 1),
          Tariff_Rate = get_text (cells ! 2), Unit = get_text (cells ! 3),
          Effective_Date = get_text (cells ! 4)\<rparr>]
      else []) rs)
   \<and> length (usitc_rows rs []) \<le> length rs
   \<and> (http env (usitc_request q) = Inr r \<longrightarrow>
        \<not> (400 \<le> status_code r \<and> status_code r < 600) \<longrightarrow>
          scrape_usitc_tariffs env q w =
            (Inr (pd_DataFrame (usitc_rows (search_results_rows (html r)) [])),
             w\<lparr>trace := trace w @ [HttpGet (usitc_request q)]\<rparr>)
          \<and> length (rows (pd_DataFrame (usitc_rows (search_results_rows (html r)) [])))
              \<le> length (search_results_rows (html r)))"
proof (intro conjI impI)
  show "usitc_rows rs [] =
     concat (map (\<lambda>cells. if 5 \<le> length cells then
        [\<lparr>HS_Code = get_text (cells ! 0), Product = get_text (cells ! 1),
          Tariff_Rate = get_text (cells ! 2), Unit = get_text (cells ! 3),
          Effective_Date = get_text (cells ! 4)\<rparr>]
      else []) rs)"
    by (rule usitc_rows_concat)
  show "length (usitc_rows rs []) \<le> length rs"
    by (rule usitc_rows_length)
next
  assume "http env (usitc_request q) = Inr r"
    and "\<not> (400 \<le> status_code r \<and> status_code r < 600)"
  then show "scrape_usitc_tariffs env q w =
            (Inr (pd_DataFrame (usitc_rows (search_results_rows (html r)) [])),
             w\<lparr>trace := trace w @ [HttpGet (usitc_request q)]\<rparr>)"
    by (auto simp: scrape_usitc_tariffs_result)
next
  show "length (rows (pd_DataFrame (usitc_rows (search_results_rows (html r)) [])))
              \<le> length (search_results_rows (html r))"
    using usitc_rows_length[of "search_results_rows (html r)"] by (simp add: pd_DataFrame_def)
qed

theorem usitc_rows_positional_witness:
  "scrape_usitc_tariffs tea_env ''0902'' fresh =
     (Inr (DataFrame [''HS Code'', ''Product'', ''Tariff Rate'', ''Unit'', ''Effective Date'']
             [[''0902.10'', ''Green Tea'', ''6.4%'', ''kg'', ''2025-04-01''],
              [''0902.30'', ''Black Tea'', ''8.0%'', ''kg'', ''2025-04-01'']]),
      \<lparr>trace = [HttpGet \<lparr>url = ''https://hts.usitc.gov/?query=0902'', timeout = Some 10\<rparr>],
       watchlist = []\<rparr>)"
proof -
  let ?r = "page 200 ''OK'' tea_rows []"
  have h: "http tea_env (usitc_request ''0902'') = Inr ?r"
    by (simp add: tea_env_def)
  have s: "\<not> (400 \<le> status_code ?r \<and> status_code ?r < 600)"
    by (simp add: page_def)
  have rows: "usitc_rows tea_rows [] =
     [\<lparr>HS_Code = ''0902.10'', Product = ''Green Tea'', Tariff_Rate = ''6.4%'', Unit = ''kg'',
       Effective_Date = ''2025-04-01''\<rparr>,
      \<lparr>HS_Code = ''0902.30'', Product = ''Black Tea'', Tariff_Rate = ''8.0%'', Unit = ''kg'',
       Effective_Date = ''2025-04-01''\<rparr>]"
    using usitc_rows_positional[of tea_rows tea_env "''0902''" ?r fresh]
    by (simp add: tea_rows_def td_def)
  from usitc_rows_positional[of tea_rows tea_env "''0902''" ?r fresh] h s
  have "scrape_usitc_tariffs tea_env ''0902'' fresh =
            (Inr (pd_DataFrame (usitc_rows (search_results_rows (html ?r)) [])),
             fresh\<lparr>trace := trace fresh @ [HttpGet (usitc_request ''0902'')]\<rparr>)"
    by blast
  then show ?thesis
    by (simp add: page_def rows pd_DataFrame_def fresh_def usitc_request_def)
qed

text \<open>
  C2. The link-list extractor returns only href values ending in \<^verbatim>\<open>.pdf\<close>, at most 5 of
  them, and when the page is fetched they are the first 5 of the matching hrefs of the
  selected anchors in document order: the filter is applied before the cap.
\<close>

theorem get_ustr_updates_filter_then_cap:
  "\<exists>us w'. get_ustr_updates env w = (Inr us, w')
     \<and> length us \<le> 5
     \<and> (\<forall>u\<in>set us. endswith u ''.pdf'')
     \<and> (\<forall>r. http env ustr_request = Inr r \<longrightarrow>
           us = take 5 (filter (\<lambda>h. endswith h ''.pdf'')
                  (concat (map (\<lambda>l. case attrs l ''href'' of None \<Rightarrow> [] | Some h \<Rightarrow> [h])
                     (view_content_links (html r))))))"
proof (cases "http env ustr_request")
  case (Inl e)
  then show ?thesis by (simp add: get_ustr_updates_result)
next
  case (Inr r)
  let ?us = "take 5 (updates (view_content_links (html r)))"
  have 1: "get_ustr_updates env w = (Inr ?us, w\<lparr>trace := trace w @ [HttpGet ustr_request]\<rparr>)"
    using Inr by (simp add: get_ustr_updates_result)
  have 2: "length ?us \<le> 5" by simp
  have "\<forall>u\<in>set (updates (view_content_links (html r))). endswith u ''.pdf''"
    unfolding updates_filter by simp
  then have 3: "\<forall>u\<in>set ?us. endswith u ''.pdf''"
    using set_take_subset[of 5 "updates (view_content_links (html r))"] by blast
  have 4: "\<forall>r'. http env ustr_request = Inr r' \<longrightarrow>
           ?us = take 5 (filter (\<lambda>h. endswith h ''.pdf'')
                  (concat (map (\<lambda>l. case attrs l ''href'' of None \<Rightarrow> [] | Some h \<Rightarrow> [h])
                     (view_content_links (html r')))))"
    unfolding Inr updates_filter by simp
  show ?thesis
    using 1 2 3 4
    by (intro exI[of _ ?us] exI[of _ "w\<lparr>trace := trace w @ [HttpGet ustr_request]\<rparr>"] conjI)
qed

theorem get_ustr_updates_filter_then_cap_witness:
  "fst (get_ustr_updates six_anchor_env fresh)
     = Inr [''/a.pdf'', ''/c.pdf'', ''/d.pdf'', ''/e.pdf'', ''/f.pdf'']"
proof -
  let ?r = "page 200 ''OK'' [] six_anchors"
  have h: "http six_anchor_env ustr_request = Inr ?r"
    by (simp add: six_anchor_env_def)
  from get_ustr_updates_filter_then_cap[of six_anchor_env fresh]
  obtain us w' where 1: "get_ustr_updates six_anchor_env fresh = (Inr us, w')"
    and 2: "\<forall>r. http six_anchor_env ustr_request = Inr r \<longrightarrow>
           us = take 5 (filter (\<lambda>h. endswith h ''.pdf'')
                  (concat (map (\<lambda>l. case attrs l ''href'' of None \<Rightarrow> [] | Some h \<Rightarrow> [h])
                     (view_content_links (html r)))))"
    by (elim exE conjE)
  from 2[rule_format, OF h]
  have "us = [''/a.pdf'', ''/c.pdf'', ''/d.pdf'', ''/e.pdf'', ''/f.pdf'']"
    by (simp add: page_def six_anchors_def anchor_def endswith_def)
  with 1 show ?thesis by simp
qed

text \<open>
  C3 (the code departs from the claim). When the USTR page answers with HTTP status 500,
  the link-list extractor reports no error and returns the links found in the body of the
  error page; the table extractor, given the same answer, reports the error and returns
  an empty frame.
\<close>

theorem get_ustr_updates_http_500_unreported:
  "get_ustr_updates http_500_env fresh =
     (Inr [''/maintenance.pdf''], \<lparr>trace = [HttpGet ustr_request], watchlist = []\<rparr>)
   \<and> scrape_usitc_tariffs http_500_env ''0902'' fresh =
     (Inr (DataFrame [] []),
      \<lparr>trace = [HttpGet (usitc_request ''0902''),
                StError (''Error fetching data from USITC: 500 Server Error: ''
                         @ ''Internal Server Error for url: https://example.org/'')],
       watchlist = []\<rparr>)"
proof
  show "get_ustr_updates http_500_env fresh =
     (Inr [''/maintenance.pdf''], \<lparr>trace = [HttpGet ustr_request], watchlist = []\<rparr>)"
    by (simp add: get_ustr_updates_result http_500_env_def page_def anchor_def endswith_def
        fresh_def)
  have "str_nat 500 = ''500''"
    by (simp add: str_nat.simps str_digit_def)
  then show "scrape_usitc_tariffs http_500_env ''0902'' fresh =
     (Inr (DataFrame [] []),
      \<lparr>trace = [HttpGet (usitc_request ''0902''),
                StError (''Error fetching data from USITC: 500 Server Error: ''
                         @ ''Internal Server Error for url: https://example.org/'')],
       watchlist = []\<rparr>)"
    by (simp add: scrape_usitc_tariffs_result http_500_env_def page_def fresh_def)
qed

text \<open>
  C4. Two accepted \<^verbatim>\<open>add\<close> calls with the same query, country and tariff type leave two
  distinct documents in the collection, both holding these fields, and the newest-first
  query then returns both next to what was stored before: nothing is deduplicated. After an
  accepted \<^verbatim>\<open>add\<close> whose assigned timestamp is later than that of every stored document,
  the newest-first query returns the new document followed by the former listing, and the
  watchlist table shows its query, country and tariff type in the first row.
\<close>

theorem add_twice_and_newest_first:
  "(collection_add env1 p w = (Inr (), w1) \<longrightarrow> collection_add env2 p w1 = (Inr (), w2) \<longrightarrow>
    firestore_stream env3 = None \<longrightarrow>
      (\<exists>d1 d2 listing w3.
           watchlist w2 = watchlist w @ [d1, d2] \<and> d1 \<noteq> d2 \<and> doc_id d1 \<noteq> doc_id d2
         \<and> query d1 = p_query p \<and> country d1 = p_country p \<and> tariff_type d1 = p_tariff_type p
         \<and> query d2 = p_query p \<and> country d2 = p_country p \<and> tariff_type d2 = p_tariff_type p
         \<and> collection_stream env3 w2 = (Inr listing, w3)
         \<and> mset listing = mset (watchlist w) + {#d1, d2#}))
   \<and> (collection_add env p w = (Inr (), w') \<longrightarrow> firestore_add env = Inr (i, now) \<longrightarrow>
       (\<forall>d\<in>set (watchlist w). timestamp d < timestamp (new_doc i now p)) \<longrightarrow>
       firestore_stream senv = None \<longrightarrow>
         order_by_timestamp_desc (watchlist w')
           = new_doc i now p # order_by_timestamp_desc (watchlist w)
         \<and> fst (collection_stream senv w) = Inr (order_by_timestamp_desc (watchlist w))
         \<and> collection_stream senv w' =
             (Inr (new_doc i now p # order_by_timestamp_desc (watchlist w)),
              w'\<lparr>trace := trace w' @ [FirestoreStream]\<rparr>)
         \<and> watchlist_display senv w' =
             (Inr (), w'\<lparr>trace := trace w' @
                [StSubheader watchlist_subheader, FirestoreStream,
                 StTable (DataFrame [''Query'', ''Country'', ''Tariff Type'']
                   ([p_query p, p_country p, p_tariff_type p]
                    # map (\<lambda>d. [query d, country d, tariff_type d])
                        (order_by_timestamp_desc (watchlist w))))]\<rparr>))"
proof (intro conjI impI)
  assume a1: "collection_add env1 p w = (Inr (), w1)"
    and a2: "collection_add env2 p w1 = (Inr (), w2)"
    and s: "firestore_stream env3 = None"
  from collection_add_Inr[OF a1] obtain i1 t1 where
    1: "i1 \<notin> set (map doc_id (watchlist w))"
       "w1 = \<lparr>trace = trace w @ [FirestoreAdd p], watchlist = watchlist w @ [new_doc i1 t1 p]\<rparr>"
    by (elim exE conjE)
  from collection_add_Inr[OF a2] obtain i2 t2 where
    2: "i2 \<notin> set (map doc_id (watchlist w1))"
       "w2 = \<lparr>trace = trace w1 @ [FirestoreAdd p], watchlist = watchlist w1 @ [new_doc i2 t2 p]\<rparr>"
    by (elim exE conjE)
  have ne: "i2 \<noteq> i1"
    using 2(1) 1(2) by (simp add: new_doc_def)
  have wl: "watchlist w2 = watchlist w @ [new_doc i1 t1 p, new_doc i2 t2 p]"
    using 1(2) 2(2) by simp
  have st: "collection_stream env3 w2 =
      (Inr (order_by_timestamp_desc (watchlist w2)), w2\<lparr>trace := trace w2 @ [FirestoreStream]\<rparr>)"
    using s by (simp add: collection_stream_result)
  have ms: "mset (order_by_timestamp_desc (watchlist w2))
      = mset (watchlist w) + {#new_doc i1 t1 p, new_doc i2 t2 p#}"
    unfolding mset_order_by_timestamp_desc wl by simp
  show "\<exists>d1 d2 listing w3.
           watchlist w2 = watchlist w @ [d1, d2] \<and> d1 \<noteq> d2 \<and> doc_id d1 \<noteq> doc_id d2
         \<and> query d1 = p_query p \<and> country d1 = p_country p \<and> tariff_type d1 = p_tariff_type p
         \<and> query d2 = p_query p \<and> country d2 = p_country p \<and> tariff_type d2 = p_tariff_type p
         \<and> collection_stream env3 w2 = (Inr listing, w3)
         \<and> mset listing = mset (watchlist w) + {#d1, d2#}"
    using wl ne st ms
    by (intro exI[of _ "new_doc i1 t1 p"] exI[of _ "new_doc i2 t2 p"]
          exI[of _ "order_by_timestamp_desc (watchlist w2)"]
          exI[of _ "w2\<lparr>trace := trace w2 @ [FirestoreStream]\<rparr>"])
       (auto simp: new_doc_def)
next
  assume a: "collection_add env p w = (Inr (), w')" and f: "firestore_add env = Inr (i, now)"
    and late: "\<forall>d\<in>set (watchlist w). timestamp d < timestamp (new_doc i now p)"
    and s: "firestore_stream senv = None"
  from collection_add_Inr[OF a] f have wl: "watchlist w' = watchlist w @ [new_doc i now p]"
    by auto
  then show first: "order_by_timestamp_desc (watchlist w')
           = new_doc i now p # order_by_timestamp_desc (watchlist w)"
    using order_by_timestamp_desc_latest[OF late] by simp
  show "fst (collection_stream senv w) = Inr (order_by_timestamp_desc (watchlist w))"
    using s by (simp add: collection_stream_result)
  show "collection_stream senv w' =
             (Inr (new_doc i now p # order_by_timestamp_desc (watchlist w)),
              w'\<lparr>trace := trace w' @ [FirestoreStream]\<rparr>)"
    using s first by (simp add: collection_stream_result)
  have ne: "watchlist w' \<noteq> []"
    using wl by simp
  show "watchlist_display senv w' =
             (Inr (), w'\<lparr>trace := trace w' @
                [StSubheader watchlist_subheader, FirestoreStream,
                 StTable (DataFrame [''Query'', ''Country'', ''Tariff Type'']
                   ([p_query p, p_country p, p_tariff_type p]
                    # map (\<lambda>d. [query d, country d, tariff_type d])
                        (order_by_timestamp_desc (watchlist w))))]\<rparr>)"
    using s ne unfolding watchlist_display_result first
    by (simp add: watchlist_items_def new_doc_def)
qed

theorem add_twice_and_newest_first_witness:
  "(\<exists>d1 d2.
      watchlist (snd (collection_add (store_env ''b2'' 5)
          (add_payload ''0902.10'' ''United States'' ''Applied'')
          (snd (collection_add (store_env ''a1'' 3)
             (add_payload ''0902.10'' ''United States'' ''Applied'') fresh))))
        = [d1, d2]
      \<and> d1 \<noteq> d2 \<and> query d1 = ''0902.10'' \<and> query d2 = ''0902.10'')
   \<and> fst (collection_stream offline
        (snd (collection_add (store_env ''b2'' 5)
          (add_payload ''0902.10'' ''United States'' ''Applied'')
          (snd (collection_add (store_env ''a1'' 3)
             (add_payload ''0902.10'' ''United States'' ''Applied'') fresh)))))
     = Inr [\<lparr>doc_id = ''b2'', query = ''0902.10'', country = ''United States'',
              tariff_type = ''Applied'', timestamp = 5\<rparr>,
            \<lparr>doc_id = ''a1'', query = ''0902.10'', country = ''United States'',
              tariff_type = ''Applied'', timestamp = 3\<rparr>]"
proof -
  let ?p = "add_payload ''0902.10'' ''United States'' ''Applied''"
  let ?a = "\<lparr>doc_id = ''a1'', query = ''0902.10'', country = ''United States'',
         tariff_type = ''Applied'', timestamp = 3\<rparr>"
  let ?b = "\<lparr>doc_id = ''b2'', query = ''0902.10'', country = ''United States'',
         tariff_type = ''Applied'', timestamp = 5\<rparr>"
  let ?w1 = "\<lparr>trace = [FirestoreAdd ?p], watchlist = [?a]\<rparr>"
  let ?w2 = "\<lparr>trace = [FirestoreAdd ?p, FirestoreAdd ?p], watchlist = [?a, ?b]\<rparr>"
  have da: "new_doc ''a1'' 3 ?p = ?a" and db: "new_doc ''b2'' 5 ?p = ?b"
    by (simp_all add: new_doc_def add_payload_def)
  have h1: "collection_add (store_env ''a1'' 3) ?p fresh = (Inr (), ?w1)"
    by (simp add: collection_add_result store_env_def fresh_def da)
  have h2: "collection_add (store_env ''b2'' 5) ?p ?w1 = (Inr (), ?w2)"
    by (simp add: collection_add_result store_env_def db)
  have f2: "firestore_add (store_env ''b2'' 5) = Inr (''b2'', 5)"
    by (simp add: store_env_def)
  have s: "firestore_stream offline = None"
    by (simp add: offline_def)
  have late: "\<forall>d\<in>set (watchlist ?w1). timestamp d < timestamp (new_doc ''b2'' 5 ?p)"
    by (simp add: db)
  note twice = add_twice_and_newest_first[where ?env1.0 = "store_env ''a1'' 3" and p = ?p
      and w = fresh and ?w1.0 = ?w1 and ?env2.0 = "store_env ''b2'' 5" and ?w2.0 = ?w2
      and ?env3.0 = offline,
      THEN conjunct1, rule_format, OF h1 h2 s]
  note newest = add_twice_and_newest_first[where env = "store_env ''b2'' 5" and p = ?p
      and w = ?w1 and w' = ?w2 and i = "''b2''" and now = 5 and senv = offline,
      THEN conjunct2]
  from twice obtain d1 d2 where
    d: "watchlist ?w2 = watchlist fresh @ [d1, d2]" "d1 \<noteq> d2"
       "query d1 = p_query ?p" "query d2 = p_query ?p"
    by (elim exE conjE)
  have 1: "\<exists>d1 d2. watchlist ?w2 = [d1, d2] \<and> d1 \<noteq> d2
             \<and> query d1 = ''0902.10'' \<and> query d2 = ''0902.10''"
    using d by (intro exI[of _ d1] exI[of _ d2]) (simp add: fresh_def add_payload_def)
  from newest h2 f2 late s have "collection_stream offline ?w2 =
             (Inr (new_doc ''b2'' 5 ?p # order_by_timestamp_desc (watchlist ?w1)),
              ?w2\<lparr>trace := trace ?w2 @ [FirestoreStream]\<rparr>)"
    by blast
  then have 2: "fst (collection_stream offline ?w2) = Inr [?b, ?a]"
    by (simp add: db order_by_timestamp_desc_def)
  show ?thesis
    using 1 2 by (simp only: h1 h2 snd_conv)
qed

text \<open>
  C5. The newest-first listing holds exactly the stored documents, ordered by descending
  timestamp; on an empty collection it is the empty list. When the query does not fail,
  the display reads this listing: for an empty collection it shows
  \<^verbatim>\<open>No items in your watchlist yet.\<close> and no error, otherwise a table with the query,
  country and tariff type of every document in that order.
\<close>

theorem listing_all_newest_first:
  "mset (order_by_timestamp_desc docs) = mset docs
   \<and> sorted_wrt (\<lambda>a b. timestamp a \<ge> timestamp b) (order_by_timestamp_desc docs)
   \<and> order_by_timestamp_desc [] = []
   \<and> (firestore_stream env = None \<longrightarrow>
        collection_stream env w =
          (Inr (order_by_timestamp_desc (watchlist w)), w\<lparr>trace := trace w @ [FirestoreStream]\<rparr>)
        \<and> (watchlist w = [] \<longrightarrow>
             watchlist_display env w =
               (Inr (), w\<lparr>trace := trace w @
                  [StSubheader watchlist_subheader, FirestoreStream,
                   StInfo ''No items in your watchlist yet.'']\<rparr>))
        \<and> (watchlist w \<noteq> [] \<longrightarrow>
             watchlist_display env w =
               (Inr (), w\<lparr>trace := trace w @
                  [StSubheader watchlist_subheader, FirestoreStream,
                   StTable (DataFrame [''Query'', ''Country'', ''Tariff Type'']
                     (map (\<lambda>d. [query d, country d, tariff_type d])
                        (order_by_timestamp_desc (watchlist w))))]\<rparr>)))"
proof (intro conjI impI)
  show "mset (order_by_timestamp_desc docs) = mset docs"
    by (rule mset_order_by_timestamp_desc)
  show "sorted_wrt (\<lambda>a b. timestamp a \<ge> timestamp b) (order_by_timestamp_desc docs)"
    by (rule sorted_order_by_timestamp_desc)
  show "order_by_timestamp_desc [] = []"
    by (simp add: order_by_timestamp_desc_def)
next
  assume "firestore_stream env = None"
  then show "collection_stream env w =
          (Inr (order_by_timestamp_desc (watchlist w)), w\<lparr>trace := trace w @ [FirestoreStream]\<rparr>)"
    by (simp add: collection_stream_result)
next
  assume "firestore_stream env = None" "watchlist w = []"
  then show "watchlist_display env w =
               (Inr (), w\<lparr>trace := trace w @
                  [StSubheader watchlist_subheader, FirestoreStream,
                   StInfo ''No items in your watchlist yet.'']\<rparr>)"
    by (simp add: watchlist_display_result)
next
  assume "firestore_stream env = None" "watchlist w \<noteq> []"
  then show "watchlist_display env w =
               (Inr (), w\<lparr>trace := trace w @
                  [StSubheader watchlist_subheader, FirestoreStream,
                   StTable (DataFrame [''Query'', ''Country'', ''Tariff Type'']
                     (map (\<lambda>d. [query d, country d, tariff_type d])
                        (order_by_timestamp_desc (watchlist w))))]\<rparr>)"
    by (simp add: watchlist_display_result watchlist_items_def)
qed

theorem listing_all_newest_first_witness:
  "watchlist_display offline fresh =
     (Inr (), \<lparr>trace = [StSubheader watchlist_subheader, FirestoreStream,
                         StInfo ''No items in your watchlist yet.''],
               watchlist = []\<rparr>)
   \<and> fst (collection_stream offline fresh) = Inr []"
proof -
  have s: "firestore_stream offline = None"
    by (simp add: offline_def)
  have e: "watchlist fresh = []"
    by (simp add: fresh_def)
  note inst = listing_all_newest_first[of "[]" offline fresh]
  from inst s e have 1: "watchlist_display offline fresh =
               (Inr (), fresh\<lparr>trace := trace fresh @
                  [StSubheader watchlist_subheader, FirestoreStream,
                   StInfo ''No items in your watchlist yet.'']\<rparr>)"
    by blast
  from inst s have 2: "collection_stream offline fresh =
          (Inr (order_by_timestamp_desc (watchlist fresh)),
           fresh\<lparr>trace := trace fresh @ [FirestoreStream]\<rparr>)"
    by blast
  from inst have 3: "order_by_timestamp_desc [] = ([] :: doc list)"
    by blast
  show ?thesis
    unfolding 1 2 by (simp add: fresh_def 3)
qed



text \<open>
  C7 (amended). The HTML table fetch issues one HTTP request, a GET of the USITC query URL
  with a timeout of 10 seconds; every SMTP session the notifier opens is opened without a
  timeout.
\<close>

theorem usitc_fetch_timeout_only:
  "(\<exists>evs. trace (snd (scrape_usitc_tariffs env q w))
       = trace w @ HttpGet \<lparr>url = ''https://hts.usitc.gov/?query='' @ q, timeout = Some 10\<rparr> # evs
     \<and> (\<forall>r. HttpGet r \<notin> set evs))
   \<and> (\<forall>h p t. SmtpConnect h p t \<in> set (trace (snd (send_email_alert env subject body w)))
         \<longrightarrow> SmtpConnect h p t \<in> set (trace w) \<or> t = None)"
proof
  from scrape_usitc_tariffs_sound[of env q w]
  obtain df w' evs where 1: "scrape_usitc_tariffs env q w = (Inr df, w')"
      "trace w' = trace w @ HttpGet (usitc_request q) # evs" "\<forall>r. HttpGet r \<notin> set evs"
    by (elim exE conjE)
  then show "\<exists>evs. trace (snd (scrape_usitc_tariffs env q w))
       = trace w @ HttpGet \<lparr>url = ''https://hts.usitc.gov/?query='' @ q, timeout = Some 10\<rparr> # evs
     \<and> (\<forall>r. HttpGet r \<notin> set evs)"
    by (intro exI[of _ evs]) (simp add: usitc_request_def)
next
  from send_email_alert_result[of env subject body w]
  obtain ok w' evs m where 1: "send_email_alert env subject body w = (Inr ok, w')"
      and 3: "\<forall>e\<in>set evs. smtp_event e"
      and 4: "trace w' = trace w @ evs @ (if ok then [] else [StError (''Failed to send email: '' @ m)])"
    by (elim exE conjE)
  show "\<forall>h p t. SmtpConnect h p t \<in> set (trace (snd (send_email_alert env subject body w)))
         \<longrightarrow> SmtpConnect h p t \<in> set (trace w) \<or> t = None"
  proof (intro allI impI)
    fix h p t
    assume "SmtpConnect h p t \<in> set (trace (snd (send_email_alert env subject body w)))"
    then have "SmtpConnect h p t \<in> set (trace w) \<or> SmtpConnect h p t \<in> set evs"
      unfolding 1 using 4 by (cases ok) auto
    then show "SmtpConnect h p t \<in> set (trace w) \<or> t = None"
      using 3 by auto
  qed
qed

theorem usitc_fetch_timeout_only_witness:
  "SmtpConnect ''smtp.sendgrid.net'' 587 None
     \<in> set (trace (snd (send_email_alert mail_env ''subject'' ''body'' fresh)))
   \<and> SmtpConnect ''smtp.sendgrid.net'' 587 None \<notin> set (trace fresh)
   \<and> (\<exists>evs. trace (snd (scrape_usitc_tariffs mail_env ''0902'' fresh))
       = HttpGet \<lparr>url = ''https://hts.usitc.gov/?query=0902'', timeout = Some 10\<rparr> # evs)"
proof -
  have 1: "SmtpConnect ''smtp.sendgrid.net'' 587 None
     \<in> set (trace (snd (send_email_alert mail_env ''subject'' ''body'' fresh)))"
    unfolding send_email_alert_def smtplib_SMTP_def server_starttls_def server_login_def
      server_send_message_def server_exit_def with_exit_def py_defs
    by (simp add: mail_env_def offline_def fresh_def)
  have 2: "SmtpConnect ''smtp.sendgrid.net'' 587 None \<notin> set (trace fresh)"
    by (simp add: fresh_def)
  note inst = usitc_fetch_timeout_only[of mail_env "''0902''" fresh "''subject''" "''body''"]
  from inst[THEN conjunct1] have 3:
    "\<exists>evs. trace (snd (scrape_usitc_tariffs mail_env ''0902'' fresh))
       = HttpGet \<lparr>url = ''https://hts.usitc.gov/?query=0902'', timeout = Some 10\<rparr> # evs"
    by (auto simp: fresh_def)
  show ?thesis using 1 2 3 by (intro conjI)
qed

text \<open>
  C7 as stated fails: the link-list fetch is issued with no timeout, and so is the
  notifier's SMTP session.
\<close>

theorem link_list_and_smtp_without_timeout:
  "trace (snd (get_ustr_updates offline fresh)) =
     [HttpGet \<lparr>url = ''https://ustr.gov/issue-areas/enforcement/section-301-investigations/tariff-actions'',
               timeout = None\<rparr>,
      StError ''Failed to load USTR updates: offline'']
   \<and> trace (snd (send_email_alert mail_env ''subject'' ''body'' fresh)) =
     [SmtpConnect ''smtp.sendgrid.net'' 587 None, SmtpStartTLS, SmtpLogin ''apikey'' ''key'',
      SmtpSendMessage \<lparr>msg_from = ''tracker@example.org'', msg_to = ''me@example.org'',
                       msg_subject = ''subject'', msg_body = ''body''\<rparr>,
      SmtpQuit]"
proof
  show "trace (snd (get_ustr_updates offline fresh)) =
     [HttpGet \<lparr>url = ''https://ustr.gov/issue-areas/enforcement/section-301-investigations/tariff-actions'',
               timeout = None\<rparr>,
      StError ''Failed to load USTR updates: offline'']"
    by (simp add: get_ustr_updates_result offline_def fresh_def ustr_request_def)
  show "trace (snd (send_email_alert mail_env ''subject'' ''body'' fresh)) =
     [SmtpConnect ''smtp.sendgrid.net'' 587 None, SmtpStartTLS, SmtpLogin ''apikey'' ''key'',
      SmtpSendMessage \<lparr>msg_from = ''tracker@example.org'', msg_to = ''me@example.org'',
                       msg_subject = ''subject'', msg_body = ''body''\<rparr>,
      SmtpQuit]"
    unfolding send_email_alert_def smtplib_SMTP_def server_starttls_def server_login_def
      server_send_message_def server_exit_def with_exit_def py_defs
    by (simp add: mail_env_def offline_def fresh_def)
qed

text \<open>
  The three sources are fetched one after the other and none of them lets an exception
  out, so all three are always reached. What the WTO panel shows is decided by the outcome
  of the spreadsheet read alone, what the USTR panel shows by the outcome of the USTR
  request alone, and the USITC panel runs the same whatever the other two sources answer.
\<close>

lemma fetch_sources_panels:
  "\<exists>w1. fetch_usitc_data env q c tt w = (Inr (), w1)
     \<and> fetch_usitc_data (env\<lparr>excel := x, http := (http env)(ustr_request := y)\<rparr>) q c tt w
         = (Inr (), w1)
     \<and> fetch_sources env q c tt w =
         (Inr (), w1\<lparr>trace := trace w1 @
            StSubheader wto_subheader #
            ReadExcel wto_url 1 6 #
            (case excel env of
               Inl e \<Rightarrow> [StError (''Failed to load WTO data: '' @ str e)]
             | Inr df \<Rightarrow>
                 if df_empty (df_head 10 df) then [] else [StDataframe (df_head 10 df)]) @
            StSubheader ustr_subheader #
            HttpGet ustr_request #
            (case http env ustr_request of
               Inl e \<Rightarrow> [StError (''Failed to load USTR updates: '' @ str e)]
             | Inr r \<Rightarrow> map (\<lambda>link. StMarkdown (''- [View Update]('' @ link @ '')''))
                         (take 5 (updates (view_content_links (html r)))))\<rparr>)"
proof -
  from fetch_usitc_data_sound[of env q c tt w]
  obtain w1 where 1: "fetch_usitc_data env q c tt w = (Inr (), w1)"
    by (elim exE conjE)
  show ?thesis
    using 1 fetch_sources_after_usitc[OF 1]
    by (intro exI[of _ w1] conjI) (simp_all only: fetch_usitc_data_frame)
qed

text \<open>
  C8 (the code departs from the claim). When only the USTR page fails, with HTTP status
  500, the other two panels are rendered, but the failing source is not reduced to an empty
  result: the USTR panel renders the link of the error page and shows no error. When all
  HTTP requests are answered with status 500 and the spreadsheet cannot be read, the USITC
  panel and the WTO panel each show their error and nothing else, and the USTR panel again
  renders the link of the error page without an error.
\<close>

theorem fetch_sources_ustr_http_500_rendered:
  "fetch_sources ustr_500_env ''0902'' ''United States'' ''Applied'' fresh =
     (Inr (),
      \<lparr>trace =
         [StSubheader ''Live USITC Results'',
          HttpGet (usitc_request ''0902''),
          StDataframe
            (DataFrame [''HS Code'', ''Product'', ''Tariff Rate'', ''Unit'', ''Effective Date'']
               [[''0902.10'', ''Green Tea'', ''6.4%'', ''kg'', ''2025-04-01''],
                [''0902.30'', ''Black Tea'', ''8.0%'', ''kg'', ''2025-04-01'']]),
          StButton add_button_label,
          StSubheader wto_subheader,
          ReadExcel wto_url 1 6,
          StDataframe (DataFrame [''Reporter'', ''Simple average''] [[''Canada'', ''3.9'']]),
          StSubheader ustr_subheader,
          HttpGet ustr_request,
          StMarkdown ''- [View Update](/maintenance.pdf)''],
       watchlist = []\<rparr>)
   \<and> fetch_sources http_500_env ''0902'' ''United States'' ''Applied'' fresh =
     (Inr (),
      \<lparr>trace =
         [StSubheader ''Live USITC Results'',
          HttpGet (usitc_request ''0902''),
          StError (''Error fetching data from USITC: 500 Server Error: ''
                   @ ''Internal Server Error for url: https://example.org/''),
          StInfo ''No results found or invalid HS code.'',
          StSubheader wto_subheader,
          ReadExcel wto_url 1 6,
          StError ''Failed to load WTO data: offline'',
          StSubheader ustr_subheader,
          HttpGet ustr_request,
          StMarkdown ''- [View Update](/maintenance.pdf)''],
       watchlist = []\<rparr>)"
proof
  have rows: "usitc_rows tea_rows [] =
     [\<lparr>HS_Code = ''0902.10'', Product = ''Green Tea'', Tariff_Rate = ''6.4%'', Unit = ''kg'',
       Effective_Date = ''2025-04-01''\<rparr>,
      \<lparr>HS_Code = ''0902.30'', Product = ''Black Tea'', Tariff_Rate = ''8.0%'', Unit = ''kg'',
       Effective_Date = ''2025-04-01''\<rparr>]"
    by (simp add: tea_rows_def td_def)
  have h: "http ustr_500_env (usitc_request ''0902'') = Inr (page 200 ''OK'' tea_rows [])"
    by (simp add: ustr_500_env_def usitc_request_neq_ustr_request)
  have u: "http ustr_500_env ustr_request
      = Inr (page 500 ''Internal Server Error'' [] [anchor ''/maintenance.pdf''])"
    by (simp add: ustr_500_env_def)
  have x: "excel ustr_500_env
      = Inr (DataFrame [''Reporter'', ''Simple average''] [[''Canada'', ''3.9'']])"
    and b: "\<not> button ustr_500_env"
    by (simp_all add: ustr_500_env_def offline_def)
  have panel: "fetch_usitc_data ustr_500_env ''0902'' ''United States'' ''Applied'' fresh =
     (Inr (),
      \<lparr>trace =
         [StSubheader ''Live USITC Results'',
          HttpGet (usitc_request ''0902''),
          StDataframe (pd_DataFrame (usitc_rows tea_rows [])),
          StButton add_button_label],
       watchlist = []\<rparr>)"
    by (simp add: fetch_usitc_data_unfold scrape_usitc_tariffs_result h page_def rows b
        fresh_def)
  show "fetch_sources ustr_500_env ''0902'' ''United States'' ''Applied'' fresh =
     (Inr (),
      \<lparr>trace =
         [StSubheader ''Live USITC Results'',
          HttpGet (usitc_request ''0902''),
          StDataframe
            (DataFrame [''HS Code'', ''Product'', ''Tariff Rate'', ''Unit'', ''Effective Date'']
               [[''0902.10'', ''Green Tea'', ''6.4%'', ''kg'', ''2025-04-01''],
                [''0902.30'', ''Black Tea'', ''8.0%'', ''kg'', ''2025-04-01'']]),
          StButton add_button_label,
          StSubheader wto_subheader,
          ReadExcel wto_url 1 6,
          StDataframe (DataFrame [''Reporter'', ''Simple average''] [[''Canada'', ''3.9'']]),
          StSubheader ustr_subheader,
          HttpGet ustr_request,
          StMarkdown ''- [View Update](/maintenance.pdf)''],
       watchlist = []\<rparr>)"
    unfolding fetch_sources_after_usitc[OF panel]
    by (simp add: u x rows pd_DataFrame_def page_def anchor_def endswith_def df_empty_def
        df_head_def)
next
  have n: "str_nat 500 = ''500''"
    by (simp add: str_nat.simps str_digit_def)
  have h: "http http_500_env req
      = Inr (page 500 ''Internal Server Error'' tea_rows [anchor ''/maintenance.pdf''])" for req
    by (simp add: http_500_env_def)
  have x: "excel http_500_env = Inl (Exception ''offline'')"
    by (simp add: http_500_env_def offline_def)
  have panel: "fetch_usitc_data http_500_env ''0902'' ''United States'' ''Applied'' fresh =
     (Inr (),
      \<lparr>trace =
         [StSubheader ''Live USITC Results'',
          HttpGet (usitc_request ''0902''),
          StError (''Error fetching data from USITC: 500 Server Error: ''
                   @ ''Internal Server Error for url: https://example.org/''),
          StInfo ''No results found or invalid HS code.''],
       watchlist = []\<rparr>)"
    by (simp add: fetch_usitc_data_unfold scrape_usitc_tariffs_result h page_def n fresh_def)
  show "fetch_sources http_500_env ''0902'' ''United States'' ''Applied'' fresh =
     (Inr (),
      \<lparr>trace =
         [StSubheader ''Live USITC Results'',
          HttpGet (usitc_request ''0902''),
          StError (''Error fetching data from USITC: 500 Server Error: ''
                   @ ''Internal Server Error for url: https://example.org/''),
          StInfo ''No results found or invalid HS code.'',
          StSubheader wto_subheader,
          ReadExcel wto_url 1 6,
          StError ''Failed to load WTO data: offline'',
          StSubheader ustr_subheader,
          HttpGet ustr_request,
          StMarkdown ''- [View Update](/maintenance.pdf)''],
       watchlist = []\<rparr>)"
    unfolding fetch_sources_after_usitc[OF panel]
    by (simp add: h x page_def anchor_def endswith_def)
qed

text \<open>
  C9. The dictionary the script passes to \<^verbatim>\<open>add\<close> never carries a time of the caller: its
  timestamp is the sentinel \<^verbatim>\<open>SERVER_TIMESTAMP\<close>. The document stored by an accepted save
  carries the time the server supplied at the write.
\<close>

theorem timestamp_assigned_by_store:
  "(firestore_add env = Inr (i, now) \<longrightarrow> i \<notin> set (map doc_id (watchlist w)) \<longrightarrow>
      watchlist (snd (watchlist_add env q c tt w))
        = watchlist w @ [\<lparr>doc_id = i, query = q, country = c, tariff_type = tt,
                           timestamp = now\<rparr>])
   \<and> (\<forall>p. FirestoreAdd p \<in> set (trace (snd (fetch_sources env q c tt w))) \<longrightarrow>
          FirestoreAdd p \<in> set (trace w) \<or> p_timestamp p = SERVER_TIMESTAMP)"
proof (intro conjI impI allI)
  assume a: "firestore_add env = Inr (i, now)" "i \<notin> set (map doc_id (watchlist w))"
  let ?w1 = "\<lparr>trace = trace w @ [FirestoreAdd (add_payload q c tt),
                                StSuccess ''Added to watchlist.''],
             watchlist = watchlist w @ [new_doc i now (add_payload q c tt)]\<rparr>"
  from send_email_alert_result[of env "''New Tariff Watchlist Item Added''" "alert_body q c tt" ?w1]
  obtain ok w2 where 1: "send_email_alert env ''New Tariff Watchlist Item Added''
       (alert_body q c tt) ?w1 = (Inr ok, w2)" and 2: "watchlist w2 = watchlist ?w1"
    by (elim exE conjE)
  show "watchlist (snd (watchlist_add env q c tt w))
        = watchlist w @ [\<lparr>doc_id = i, query = q, country = c, tariff_type = tt,
                           timestamp = now\<rparr>]"
    unfolding watchlist_add_committed[OF a] 1 using 2
    by (simp add: new_doc_def add_payload_def)
next
  fix p
  assume p: "FirestoreAdd p \<in> set (trace (snd (fetch_sources env q c tt w)))"
  from fetch_sources_sound[of env q c tt w]
  obtain w' evs where 1: "fetch_sources env q c tt w = (Inr (), w')"
      "trace w' = trace w @ evs"
      and 2: "\<forall>p. FirestoreAdd p \<in> set evs \<longrightarrow>
           p = add_payload q c tt \<and> q \<noteq> [] \<and> c = ''United States'' \<and> button env
           \<and> (\<exists>r. http env (usitc_request q) = Inr r
                 \<and> \<not> (400 \<le> status_code r \<and> status_code r < 600)
                 \<and> usitc_rows (search_results_rows (html r)) [] \<noteq> [])"
    by (elim exE conjE)
  from p 1 have "FirestoreAdd p \<in> set (trace w) \<or> FirestoreAdd p \<in> set evs"
    by auto
  then show "FirestoreAdd p \<in> set (trace w) \<or> p_timestamp p = SERVER_TIMESTAMP"
  proof
    assume "FirestoreAdd p \<in> set (trace w)"
    then show ?thesis ..
  next
    assume "FirestoreAdd p \<in> set evs"
    with 2 have "p = add_payload q c tt" by blast
    then show ?thesis by (simp add: add_payload_def)
  qed
qed

theorem timestamp_assigned_by_store_witness:
  "watchlist (snd (watchlist_add save_env ''0902'' ''United States'' ''Applied'' fresh))
     = [\<lparr>doc_id = ''a1'', query = ''0902'', country = ''United States'',
         tariff_type = ''Applied'', timestamp = 7\<rparr>]
   \<and> FirestoreAdd \<lparr>p_query = ''0902'', p_country = ''United States'',
                    p_tariff_type = ''Applied'', p_timestamp = SERVER_TIMESTAMP\<rparr>
       \<in> set (trace (snd (fetch_sources save_env ''0902'' ''United States'' ''Applied'' fresh)))"
proof -
  have f: "firestore_add save_env = Inr (''a1'', 7)"
    by (simp add: save_env_def tea_env_def offline_def)
  have n: "''a1'' \<notin> set (map doc_id (watchlist fresh))"
    by (simp add: fresh_def)
  note inst = timestamp_assigned_by_store[of save_env "''a1''" 7 fresh "''0902''"
      "''United States''" "''Applied''"]
  from inst[THEN conjunct1, rule_format, OF f n]
  have 1: "watchlist (snd (watchlist_add save_env ''0902'' ''United States'' ''Applied'' fresh))
     = [\<lparr>doc_id = ''a1'', query = ''0902'', country = ''United States'',
         tariff_type = ''Applied'', timestamp = 7\<rparr>]"
    by (simp add: fresh_def)
  have 2: "FirestoreAdd (add_payload ''0902'' ''United States'' ''Applied'')
       \<in> set (trace (snd (fetch_sources save_env ''0902'' ''United States'' ''Applied'' fresh)))"
    unfolding fetch_sources_after_usitc[OF save_env_run] by simp
  from inst[THEN conjunct2, rule_format, OF 2]
  have "p_timestamp (add_payload ''0902'' ''United States'' ''Applied'') = SERVER_TIMESTAMP"
    by (simp add: fresh_def)
  with 1 2 show ?thesis
    by (simp add: add_payload_def)
qed

text \<open>
  C10. A write to the watchlist is issued by the three panels only when the query is
  non-empty, the country is \<^verbatim>\<open>United States\<close>, the USITC page was fetched without an HTTP
  error and yielded at least one record, and the button was pressed; the write carries that
  query and that country. So every document the panels add to the collection has a
  non-empty query and the country \<^verbatim>\<open>United States\<close>.
\<close>

theorem add_only_for_united_states:
  "(\<forall>p. FirestoreAdd p \<in> set (trace (snd (fetch_sources env q c tt w))) \<longrightarrow>
        FirestoreAdd p \<notin> set (trace w) \<longrightarrow>
          p_query p = q \<and> q \<noteq> [] \<and> p_country p = ''United States'' \<and> c = ''United States''
          \<and> button env
          \<and> (\<exists>r. http env (usitc_request q) = Inr r
                \<and> \<not> (400 \<le> status_code r \<and> status_code r < 600)
                \<and> usitc_rows (search_results_rows (html r)) [] \<noteq> []))
   \<and> (\<forall>d\<in>set (watchlist (snd (fetch_sources env q c tt w))).
         d \<in> set (watchlist w) \<or> (query d \<noteq> [] \<and> country d = ''United States''))"
proof -
  from fetch_sources_sound[of env q c tt w]
  obtain w' evs where 1: "fetch_sources env q c tt w = (Inr (), w')"
      "trace w' = trace w @ evs"
      and 2: "\<forall>p. FirestoreAdd p \<in> set evs \<longrightarrow>
           p = add_payload q c tt \<and> q \<noteq> [] \<and> c = ''United States'' \<and> button env
           \<and> (\<exists>r. http env (usitc_request q) = Inr r
                 \<and> \<not> (400 \<le> status_code r \<and> status_code r < 600)
                 \<and> usitc_rows (search_results_rows (html r)) [] \<noteq> [])"
      and 3: "watchlist w' = watchlist w
         \<or> (\<exists>i now. firestore_add env = Inr (i, now)
               \<and> watchlist w' = watchlist w @ [new_doc i now (add_payload q c tt)]
               \<and> FirestoreAdd (add_payload q c tt) \<in> set evs)"
    by (elim exE conjE)
  have a: "p_query p = q \<and> q \<noteq> [] \<and> p_country p = ''United States'' \<and> c = ''United States''
          \<and> button env
          \<and> (\<exists>r. http env (usitc_request q) = Inr r
                \<and> \<not> (400 \<le> status_code r \<and> status_code r < 600)
                \<and> usitc_rows (search_results_rows (html r)) [] \<noteq> [])"
    if "FirestoreAdd p \<in> set (trace (snd (fetch_sources env q c tt w)))"
      "FirestoreAdd p \<notin> set (trace w)" for p
  proof -
    from that 1 have "FirestoreAdd p \<in> set evs" by auto
    with 2 have g: "p = add_payload q c tt" "q \<noteq> []" "c = ''United States''" "button env"
        "\<exists>r. http env (usitc_request q) = Inr r
                \<and> \<not> (400 \<le> status_code r \<and> status_code r < 600)
                \<and> usitc_rows (search_results_rows (html r)) [] \<noteq> []"
      by blast+
    then show ?thesis by (simp add: add_payload_def)
  qed
  have b: "d \<in> set (watchlist w) \<or> (query d \<noteq> [] \<and> country d = ''United States'')"
    if "d \<in> set (watchlist (snd (fetch_sources env q c tt w)))" for d
    using 3
  proof
    assume "watchlist w' = watchlist w"
    with that 1 show ?thesis by simp
  next
    assume "\<exists>i now. firestore_add env = Inr (i, now)
               \<and> watchlist w' = watchlist w @ [new_doc i now (add_payload q c tt)]
               \<and> FirestoreAdd (add_payload q c tt) \<in> set evs"
    then obtain i now where s: "watchlist w' = watchlist w @ [new_doc i now (add_payload q c tt)]"
        "FirestoreAdd (add_payload q c tt) \<in> set evs"
      by (elim exE conjE)
    from 2 s(2) have g: "q \<noteq> []" "c = ''United States''" by blast+
    from that 1 s(1) have "d \<in> set (watchlist w) \<or> d = new_doc i now (add_payload q c tt)"
      by auto
    then show ?thesis using g by (auto simp: new_doc_def add_payload_def)
  qed
  show ?thesis using a b by blast
qed

theorem add_only_for_united_states_witness:
  "FirestoreAdd (add_payload ''0902'' ''United States'' ''Applied'')
     \<in> set (trace (snd (fetch_sources save_env ''0902'' ''United States'' ''Applied'' fresh)))
   \<and> FirestoreAdd (add_payload ''0902'' ''United States'' ''Applied'') \<notin> set (trace fresh)
   \<and> button save_env
   \<and> watchlist (snd (fetch_sources save_env ''0902'' ''United States'' ''Applied'' fresh))
       = [\<lparr>doc_id = ''a1'', query = ''0902'', country = ''United States'',
           tariff_type = ''Applied'', timestamp = 7\<rparr>]"
proof -
  let ?p = "add_payload ''0902'' ''United States'' ''Applied''"
  have 1: "FirestoreAdd ?p
     \<in> set (trace (snd (fetch_sources save_env ''0902'' ''United States'' ''Applied'' fresh)))"
    unfolding fetch_sources_after_usitc[OF save_env_run] by simp
  have 2: "FirestoreAdd ?p \<notin> set (trace fresh)"
    by (simp add: fresh_def)
  have 3: "watchlist (snd (fetch_sources save_env ''0902'' ''United States'' ''Applied'' fresh))
       = [\<lparr>doc_id = ''a1'', query = ''0902'', country = ''United States'',
           tariff_type = ''Applied'', timestamp = 7\<rparr>]"
    unfolding fetch_sources_after_usitc[OF save_env_run] by simp
  note inst = add_only_for_united_states[of save_env "''0902''" "''United States''"
      "''Applied''" fresh]
  from inst[THEN conjunct1, rule_format, OF 1 2] have 4: "button save_env"
    by (elim conjE)
  show ?thesis using 1 2 3 4 by (intro conjI)
qed

end
